theory Spec2Isabelle
  imports Complex_Main
begin

section \<open>Common data: errors, subzone rows, pandas Series\<close>

text \<open>
  The scripts under \<open>src/code\<close> work on pandas DataFrames whose rows are subzones. A row
  is modelled as a record holding the columns the modelled functions read. Floating-point
  columns are modelled as exact reals: rounding is not modelled, and a NaN is made explicit
  only where the code can produce one (the min-max normalisation, below). Exceptions are
  values of \<open>py_error\<close>; \<open>DataError\<close> is the failure type of the specification, which no
  modelled function raises.
\<close>

datatype py_error = KeyError string | IndexError | ZeroDivisionError | ValueError | DataError

record subzone =
  latitude :: real
  longitude :: real
  AED_count :: int
  normalized_risk_score :: real
  area_weight :: real
  normalized_density :: real

text \<open>
  A pandas Series of integers with an integer index is a list of (label, value) pairs in
  positional order. Iterating a Series yields its values in positional order; indexing it
  with an integer, \<open>s[k]\<close>, looks the \<^emph>\<open>label\<close> \<open>k\<close> up when the index is an integer index,
  and raises KeyError when no such label exists; the slice \<open>s[::-1]\<close> reverses the positions
  and keeps every value with its label.
\<close>

type_synonym series = "(nat \<times> nat) list"

definition series_values :: "series \<Rightarrow> nat list" where
  "series_values s = map snd s"

definition series_getitem :: "series \<Rightarrow> nat \<Rightarrow> py_error + nat" where
  "series_getitem s k = (case map_of s k of None \<Rightarrow> Inl (KeyError ''label'') | Some v \<Rightarrow> Inr v)"

definition series_reversed :: "series \<Rightarrow> series" where
  "series_reversed s = rev s"

text \<open>
  \<open>np.argsort(scores)\<close> on a Series with the default index \<open>0..n-1\<close> calls
  \<open>Series.argsort\<close>, whose result is again a Series with the labels of \<open>scores\<close>; its values
  are the positions of \<open>scores\<close> in ascending order of score. Equal scores are kept in
  position order here. numpy's default sort is not stable, so for tied scores the code can
  return the tied positions in another order; nothing proved below depends on the order
  in which tied scores appear.
\<close>

definition np_argsort :: "real list \<Rightarrow> series" where
  "np_argsort scores =
     zip [0..<length scores] (sort_key (\<lambda>i. scores ! i) [0..<length scores])"

text \<open>Python's \<open>int(x)\<close> on a float truncates towards zero.\<close>

definition py_int :: "real \<Rightarrow> int" where
  "py_int x = (if 0 \<le> x then \<lfloor>x\<rfloor> else \<lceil>x\<rceil>)"

definition priority_scores :: "subzone list \<Rightarrow> real list" where
  "priority_scores subzone_data =
     map (\<lambda>z. normalized_risk_score z * area_weight z) subzone_data"

section \<open>Proportional allocation: \<open>aed_final_optimization.final_aed_allocation\<close>\<close>

text \<open>
  The source fixes \<open>total_aeds = 6613\<close>; \<open>final_aed_allocation_budget\<close> is the body of the
  function with that constant as a parameter, and \<open>final_aed_allocation\<close> instantiates it.
  The value returned is the column \<open>optimized_aeds\<close> of the result table.

  The share \<open>int(remaining_aeds * proportion)\<close> is computed in exact arithmetic. In doubles
  the product can fall on the other side of an integer, so a single share can differ by
  one unit from the code's; the remainder loop then hands out one unit more or less, and
  the total is the same at the source's budget.
\<close>

definition proportional_allocation :: "real list \<Rightarrow> int \<Rightarrow> int list" where
  "proportional_allocation scores remaining_aeds =
     (let priority_sum = sum_list scores in
      map (\<lambda>p. if priority_sum > 0
                then py_int (real_of_int remaining_aeds * (p / priority_sum))
                else 0) scores)"

text \<open>
  The remainder loop \<open>for i in range(r): idx = priority_indices[i % len(priority_indices)];
  base_allocation[idx] += 1\<close>. Here \<open>priority_indices\<close> is the reversed argsort Series and
  \<open>priority_indices[...]\<close> is a lookup by label.
\<close>

fun remainder_loop :: "series \<Rightarrow> nat list \<Rightarrow> int list \<Rightarrow> py_error + int list" where
  "remainder_loop priority_indices [] base_allocation = Inr base_allocation"
| "remainder_loop priority_indices (i # rest) base_allocation =
     (if length priority_indices = 0 then Inl ZeroDivisionError
      else case series_getitem priority_indices (i mod length priority_indices) of
             Inl e \<Rightarrow> Inl e
           | Inr idx \<Rightarrow>
               if idx < length base_allocation
               then remainder_loop priority_indices rest
                      (base_allocation[idx := base_allocation ! idx + 1])
               else Inl IndexError)"

definition final_aed_allocation_budget :: "int \<Rightarrow> subzone list \<Rightarrow> py_error + int list" where
  "final_aed_allocation_budget total_aeds subzone_data =
     (let n_subzones = length subzone_data;
          scores = priority_scores subzone_data;
          remaining_aeds = total_aeds - int n_subzones;
          priority_indices = series_reversed (np_argsort scores);
          base_allocation = map (\<lambda>e. 1 + e) (proportional_allocation scores remaining_aeds);
          remaining_after_proportional = total_aeds - sum_list base_allocation
      in if remaining_after_proportional > 0
         then remainder_loop priority_indices [0..<nat remaining_after_proportional]
                base_allocation
         else Inr base_allocation)"

definition final_aed_allocation :: "subzone list \<Rightarrow> py_error + int list" where
  "final_aed_allocation = final_aed_allocation_budget 6613"

section \<open>Tiered allocation: \<open>aed_balanced_simple.balanced_aed_allocation\<close>\<close>

text \<open>
  The loop \<open>for i, idx in enumerate(priority_indices)\<close> iterates the values of the reversed
  argsort Series in positional order, that is by descending priority. The rank tests
  \<open>priority_rank <= n_subzones * 0.2\<close> and \<open>priority_rank <= n_subzones * 0.5\<close> are kept as
  comparisons of reals. (The float product \<open>n * 0.2\<close> is exactly \<open>n / 5\<close> when that is an
  integer and is otherwise at least 0.2 minus a rounding error away from every integer, so
  the comparison with an integer rank has the same outcome in floats.) The budget is the
  sum of the \<open>AED_count\<close> column. The value modelled is the first component of the result,
  the allocation vector.
\<close>

fun balanced_loop :: "nat \<Rightarrow> (nat \<times> nat) list \<Rightarrow> int \<Rightarrow> int list \<Rightarrow> int list" where
  "balanced_loop n_subzones [] remaining_aeds base_allocation = base_allocation"
| "balanced_loop n_subzones ((i, idx) # rest) remaining_aeds base_allocation =
     (if remaining_aeds \<le> 0 then base_allocation
      else
        let priority_rank = i + 1;
            extra_aeds =
              (if real priority_rank \<le> real n_subzones * 0.2 then min remaining_aeds 5
               else if real priority_rank \<le> real n_subzones * 0.5 then min remaining_aeds 3
               else min remaining_aeds 1)
        in balanced_loop n_subzones rest (remaining_aeds - extra_aeds)
             (base_allocation[idx := base_allocation ! idx + extra_aeds]))"

definition balanced_aed_allocation :: "subzone list \<Rightarrow> int list" where
  "balanced_aed_allocation subzone_data =
     (let total_aeds = sum_list (map AED_count subzone_data);
          n_subzones = length subzone_data;
          scores = priority_scores subzone_data;
          base_allocation = replicate n_subzones (1::int);
          remaining_aeds = total_aeds - int n_subzones
      in if remaining_aeds > 0
         then let priority_indices = series_values (series_reversed (np_argsort scores))
              in balanced_loop n_subzones (zip [0..<length priority_indices] priority_indices)
                   remaining_aeds base_allocation
         else base_allocation)"

text \<open>
  Scenario A of the specification: three subzones with priority scores 0.1, 0.5 and 0.9.
  \<open>scenario_A_relabelled\<close> has the same priority scores from other risk scores, area
  weights, device counts and coordinates.
\<close>

definition scenario_A :: "subzone list" where
  "scenario_A =
     [\<lparr>latitude = 0, longitude = 0, AED_count = 2, normalized_risk_score = 1/10, area_weight = 1,
      normalized_density = 1\<rparr>,
      \<lparr>latitude = 0, longitude = 0, AED_count = 2, normalized_risk_score = 1/2, area_weight = 1,
      normalized_density = 1\<rparr>,
      \<lparr>latitude = 0, longitude = 0, AED_count = 2, normalized_risk_score = 9/10, area_weight = 1,
      normalized_density = 1\<rparr>]"

definition scenario_A_relabelled :: "subzone list" where
  "scenario_A_relabelled =
     [\<lparr>latitude = 1, longitude = 103, AED_count = 7, normalized_risk_score = 1/5, area_weight = 1/2,
      normalized_density = 1/2\<rparr>,
      \<lparr>latitude = 2, longitude = 104, AED_count = 0, normalized_risk_score = 1, area_weight = 1/2,
      normalized_density = 1/2\<rparr>,
      \<lparr>latitude = 3, longitude = 105, AED_count = 1, normalized_risk_score = 1, area_weight = 9/10,
      normalized_density = 9/10\<rparr>]"

definition single_subzone :: "subzone list" where
  "single_subzone =
     [\<lparr>latitude = 0, longitude = 0, AED_count = 10, normalized_risk_score = 1, area_weight = 1,
      normalized_density = 1\<rparr>]"

section \<open>Coverage matrix and multi-cover deployment: \<open>real_aed_optimization_with_area\<close>\<close>

text \<open>
  \<open>geodesic(point1, point2).meters\<close> comes from the geopy library and is a parameter of
  the model. The matrix is \<open>np.zeros((n, n), dtype=int)\<close> with the entry \<open>[i, j]\<close> set to 1
  inside the guard \<open>if i != j\<close> when the distance is within the radius. The source's
  default radius is 200, which is also what \<open>main\<close> passes.
\<close>

type_synonym point = "real \<times> real"

definition create_coverage_matrix ::
  "(point \<Rightarrow> point \<Rightarrow> real) \<Rightarrow> subzone list \<Rightarrow> real \<Rightarrow> int list list" where
  "create_coverage_matrix geodesic_meters subzone_data coverage_radius =
     (let n = length subzone_data in
      map (\<lambda>i. map (\<lambda>j.
             if i \<noteq> j then
               (let point1 = (latitude (subzone_data ! i), longitude (subzone_data ! i));
                    point2 = (latitude (subzone_data ! j), longitude (subzone_data ! j));
                    distance = geodesic_meters point1 point2
                in if distance \<le> coverage_radius then 1 else 0)
             else 0) [0..<n]) [0..<n])"

text \<open>
  The integer program handed to the solver: \<open>n\<close> integer variables with lower bound 0, the
  objective as a list of (variable, coefficient) terms, one per pair \<open>(i, j)\<close> with
  \<open>coverage_matrix[i, j] == 1\<close>, and the single constraint that the variables sum to
  \<open>total_aeds\<close>. The solver (PuLP with its default backend) is a parameter: it maps the
  program to a status and a value for each variable. Status 1 is PuLP's \<open>Optimal\<close>.
\<close>

record milp =
  milp_variables :: nat
  milp_objective :: "(nat \<times> real) list"
  milp_total :: int

type_synonym milp_solver = "milp \<Rightarrow> int \<times> (nat \<Rightarrow> real)"

definition deployment_problem :: "subzone list \<Rightarrow> int list list \<Rightarrow> int \<Rightarrow> milp" where
  "deployment_problem subzone_data coverage_matrix total_aeds =
     (let n = length subzone_data;
          risk_scores = map normalized_density subzone_data;
          area_weights = map area_weight subzone_data
      in \<lparr>milp_variables = n,
          milp_objective =
            concat (map (\<lambda>i. map (\<lambda>j. (j, risk_scores ! i * area_weights ! i))
                               (filter (\<lambda>j. coverage_matrix ! i ! j = 1) [0..<n])) [0..<n]),
          milp_total = total_aeds\<rparr>)"

definition area_weighted_multi_cover_deployment ::
  "milp_solver \<Rightarrow> subzone list \<Rightarrow> int list list \<Rightarrow> int \<Rightarrow> (int list \<times> real list) option" where
  "area_weighted_multi_cover_deployment solve subzone_data coverage_matrix total_aeds =
     (let n = length subzone_data;
          risk_scores = map normalized_density subzone_data;
          area_weights = map area_weight subzone_data;
          (status, x) = solve (deployment_problem subzone_data coverage_matrix total_aeds)
      in if status = 1 then
           (let deployment = map (\<lambda>j. py_int (x j)) [0..<n];
                coverage_effect =
                  map (\<lambda>i. real_of_int (sum_list (map (\<lambda>j. deployment ! j)
                                 (filter (\<lambda>j. coverage_matrix ! i ! j = 1) [0..<n])))
                            * risk_scores ! i * area_weights ! i) [0..<n]
            in Some (deployment, coverage_effect))
         else None)"

text \<open>
  What \<open>main\<close> does with the outcome: with a deployment it analyses and reports it, with
  \<open>None\<close> it prints that the optimisation failed and produces no allocation.
\<close>

datatype run_report = Completed "int list" "real list" | Optimisation_failed

definition real_aed_optimization_main ::
  "milp_solver \<Rightarrow> (point \<Rightarrow> point \<Rightarrow> real) \<Rightarrow> subzone list \<Rightarrow> run_report" where
  "real_aed_optimization_main solve geodesic_meters subzone_data =
     (let coverage_matrix = create_coverage_matrix geodesic_meters subzone_data 200;
          total_aeds = sum_list (map AED_count subzone_data)
      in case area_weighted_multi_cover_deployment solve subzone_data coverage_matrix total_aeds of
           Some (deployment, coverage_effect) \<Rightarrow> Completed deployment coverage_effect
         | None \<Rightarrow> Optimisation_failed)"

text \<open>
  Inputs for concrete runs: a symmetric stand-in for the geodesic distance (about 111 km
  per degree), three subzones of which the first two are 111 m apart, and a solver outcome
  with PuLP's status \<open>-1\<close> (infeasible).
\<close>

definition planar_meters :: "point \<Rightarrow> point \<Rightarrow> real" where
  "planar_meters p q = 111000 * (\<bar>fst p - fst q\<bar> + \<bar>snd p - snd q\<bar>)"

definition three_subzones :: "subzone list" where
  "three_subzones =
     [\<lparr>latitude = 1300/1000, longitude = 1038/10, AED_count = 2, normalized_risk_score = 1/2,
       area_weight = 1, normalized_density = 1\<rparr>,
      \<lparr>latitude = 1301/1000, longitude = 1038/10, AED_count = 1, normalized_risk_score = 1,
       area_weight = 1/2, normalized_density = 1/2\<rparr>,
      \<lparr>latitude = 1400/1000, longitude = 1039/10, AED_count = 1, normalized_risk_score = 0,
       area_weight = 1/4, normalized_density = 1/4\<rparr>]"

definition infeasible_solver :: milp_solver where
  "infeasible_solver problem = (-1, \<lambda>j. 0)"

section \<open>Min-max normalisation of risk scores\<close>

text \<open>
  \<open>aed_balanced_simple.load_data\<close> (column \<open>normalized_risk_score\<close>) and
  \<open>PaperAlignedRiskModel.predict_risk_scores\<close> (column \<open>risk_score_normalized\<close>) both
  evaluate the column expression \<open>(s - s.min()) / (s.max() - s.min())\<close>. The scores are
  finite floats, modelled as reals; the quotient is a float that can be NaN or infinite,
  because dividing by \<open>0.0\<close> does not raise in numpy: \<open>0.0 / 0.0\<close> is NaN and
  \<open>x / 0.0\<close> is an infinity with the sign of \<open>x\<close>.
\<close>

datatype fl = Fin real | NaN | PosInf | NegInf

definition np_true_divide :: "real \<Rightarrow> real \<Rightarrow> fl" where
  "np_true_divide a b =
     (if b \<noteq> 0 then Fin (a / b)
      else if a = 0 then NaN
      else if 0 < a then PosInf else NegInf)"

definition min_max_normalized :: "real list \<Rightarrow> fl list" where
  "min_max_normalized risk_score =
     (case risk_score of
        [] \<Rightarrow> []
      | _ \<Rightarrow> (let lo = Min (set risk_score); hi = Max (set risk_score)
              in map (\<lambda>s. np_true_divide (s - lo) (hi - lo)) risk_score))"

section \<open>Feature preparation\<close>

text \<open>
  A pandas DataFrame is its number of rows and a map from column names to columns. All
  columns are numeric here (subzone codes are identifiers and are represented by numbers
  too). \<open>df[c]\<close> raises KeyError for an absent column, \<open>df[c] = v\<close> adds or replaces a
  column, and \<open>df[cols]\<close> with a list of names raises KeyError when one of them is absent.
\<close>

record dataframe =
  df_rows :: nat
  df_columns :: "string \<rightharpoonup> real list"

definition has_column :: "dataframe \<Rightarrow> string \<Rightarrow> bool" where
  "has_column df c = (df_columns df c \<noteq> None)"

definition getitem :: "dataframe \<Rightarrow> string \<Rightarrow> py_error + real list" where
  "getitem df c = (case df_columns df c of None \<Rightarrow> Inl (KeyError c) | Some v \<Rightarrow> Inr v)"

definition setitem :: "dataframe \<Rightarrow> string \<Rightarrow> real list \<Rightarrow> dataframe" where
  "setitem df c v = df\<lparr>df_columns := (df_columns df)(c \<mapsto> v)\<rparr>"

definition select_columns :: "dataframe \<Rightarrow> string list \<Rightarrow> py_error + dataframe" where
  "select_columns df cols =
     (case filter (\<lambda>c. \<not> has_column df c) cols of
        [] \<Rightarrow> Inr (df\<lparr>df_columns := (\<lambda>c. if c \<in> set cols then df_columns df c else None)\<rparr>)
      | c # _ \<Rightarrow> Inl (KeyError c))"

text \<open>Sequencing of statements that can raise: the first exception ends the function.\<close>

definition py_then :: "py_error + 'a \<Rightarrow> ('a \<Rightarrow> py_error + 'b) \<Rightarrow> py_error + 'b" where
  "py_then r f = (case r of Inl e \<Rightarrow> Inl e | Inr v \<Rightarrow> f v)"

subsection \<open>\<open>PaperAlignedRiskModel\<close> in \<open>risk_model_paper_aligned\<close>\<close>

text \<open>
  \<open>create_mobility_features\<close> draws an origin-destination matrix from a seeded random
  generator; \<open>total_mobility\<close>, its row sums plus column sums, depends on the data only
  through the number of rows and is a parameter here. It has one entry per row of the
  table, so it is empty exactly when the table has no rows. \<open>total_mobility.max()\<close> raises
  ValueError on a zero-size array. The quotient by that maximum is written with the
  division of the reals; numpy yields NaN where the maximum is 0, which this model does
  not represent, and nothing proved below depends on the values of that column.
\<close>

definition create_mobility_features :: "real list \<Rightarrow> dataframe \<Rightarrow> py_error + dataframe" where
  "create_mobility_features total_mobility pop_df =
     (let df = pop_df in
      if total_mobility = [] then Inl ValueError
      else
        let mobility_intensity = map (\<lambda>t. t / Max (set total_mobility)) total_mobility in
        py_then (getitem df ''Total_Total'') (\<lambda>population.
          let risk_exposure = map2 (\<lambda>t p. t * p / 1000) total_mobility population;
              df = setitem df ''total_mobility'' total_mobility;
              df = setitem df ''mobility_intensity'' mobility_intensity;
              df = setitem df ''risk_exposure'' risk_exposure
          in Inr df))"

text \<open>
  \<open>create_paper_features\<close> adds the feature columns one assignment at a time; the two
  random draws (the noise of \<open>H_i\<close> and the Poisson factor of \<open>ohca_count\<close>) are parameters.
\<close>

definition create_paper_features ::
  "real list \<Rightarrow> real list \<Rightarrow> dataframe \<Rightarrow> py_error + dataframe" where
  "create_paper_features h_noise random_factor df0 =
     py_then (getitem df0 ''Total_Total'') (\<lambda>P_i.
     let df = setitem df0 ''P_i'' P_i in
     py_then (getitem df ''elderly_ratio'') (\<lambda>E_i.
     let df = setitem df ''E_i'' E_i in
     py_then (getitem df ''low_income_ratio'') (\<lambda>L_i.
     let df = setitem df ''L_i'' L_i;
         H_i = map2 (+) (map2 (\<lambda>p e. p * e * 0.001) P_i E_i) h_noise;
         df = setitem df ''H_i'' H_i;
         df = setitem df ''H_i'' (map (\<lambda>h. max h 0) H_i) in
     py_then (getitem df ''hdb_ratio'') (\<lambda>HDB_i.
     let df = setitem df ''HDB_i'' HDB_i;
         df = setitem df ''V_i'' (map2 (\<lambda>l h. 0.7 * l + 0.3 * h) L_i HDB_i);
         df = setitem df ''ED_i'' (map2 (*) E_i P_i);
         base_ohca = map2 (\<lambda>p e. p * e * 0.0001) P_i E_i;
         ohca_count = map (\<lambda>c. real_of_int (py_int c)) (map2 (+) base_ohca random_factor);
         df = setitem df ''ohca_count'' ohca_count;
         ohca_count = map (\<lambda>c. min (max c 0) 1000) ohca_count;
         df = setitem df ''ohca_count'' ohca_count;
         df = setitem df ''ohca_rate''
                (map2 (\<lambda>c p. c / (if p = 0 then 1 else p)) ohca_count P_i) in
     py_then (getitem df ''risk_exposure'') (\<lambda>RE_i.
     let df = setitem df ''RE_i'' RE_i in
     py_then (getitem df ''total_mobility'') (\<lambda>TM_i.
     let df = setitem df ''TM_i'' TM_i in
     py_then (getitem df ''mobility_intensity'') (\<lambda>MI_i.
     Inr (setitem df ''MI_i'' MI_i))))))))"

definition feature_columns :: "string list" where
  "feature_columns =
     [''P_i'', ''E_i'', ''L_i'', ''H_i'', ''HDB_i'', ''V_i'', ''ED_i'', ''RE_i'', ''TM_i'', ''MI_i'']"

text \<open>
  \<open>prepare_features\<close> stores the feature table, the target and the subzone codes on the
  model object and returns the frame; the result record holds all four.
\<close>

record prepared =
  features :: dataframe
  target :: "real list"
  subzone_codes :: "real list"
  frame :: dataframe

definition prepare_features ::
  "real list \<Rightarrow> real list \<Rightarrow> real list \<Rightarrow> dataframe \<Rightarrow> py_error + prepared" where
  "prepare_features total_mobility h_noise random_factor pop_df =
     py_then (create_mobility_features total_mobility pop_df) (\<lambda>df.
     py_then (create_paper_features h_noise random_factor df) (\<lambda>df.
     let available_features = filter (has_column df) feature_columns;
         missing_features = filter (\<lambda>c. \<not> has_column df c) feature_columns;
         (df, available_features) =
           (if missing_features \<noteq> []
            then (fold (\<lambda>feature d. setitem d feature (replicate (df_rows d) 0))
                    missing_features df,
                  feature_columns)
            else (df, available_features)) in
     py_then (select_columns df available_features) (\<lambda>selected.
     py_then (getitem df ''ohca_count'') (\<lambda>ohca.
     py_then (getitem df ''subzone_code'') (\<lambda>codes.
     Inr \<lparr>features = selected, target = ohca, subzone_codes = codes, frame = df\<rparr>)))))"

text \<open>The columns of the input table that \<open>prepare_features\<close> reads.\<close>

definition paper_input_columns :: "string list" where
  "paper_input_columns =
     [''Total_Total'', ''elderly_ratio'', ''low_income_ratio'', ''hdb_ratio'', ''subzone_code'']"

subsection \<open>\<open>load_and_prepare_data\<close> in \<open>optimized_risk_model_with_area\<close>\<close>

text \<open>
  The function up to the feature table \<open>X = data[features].copy()\<close>, which is what the
  model returns (\<open>fillna(0)\<close> changes no finite value). The statements after it read
  columns of \<open>X\<close> only.
\<close>

definition load_features :: "string list" where
  "load_features =
     [''Total_Total'', ''volunteers_count'', ''hdb_ratio'', ''elderly_ratio'',
      ''low_income_ratio'', ''AED_count'', ''area_weight'']"

definition load_and_prepare_data :: "dataframe \<Rightarrow> py_error + dataframe" where
  "load_and_prepare_data data0 =
     py_then (getitem data0 ''Total_Total'') (\<lambda>population.
     let data = setitem data0 ''population_density'' population in
     py_then (getitem data ''population_density'') (\<lambda>density.
     let data = setitem data ''area_weight''
                  (case density of [] \<Rightarrow> [] | _ \<Rightarrow> map (\<lambda>p. p / Max (set density)) density) in
     select_columns data load_features))"

text \<open>The columns of the input table that \<open>load_and_prepare_data\<close> reads.\<close>

definition load_input_columns :: "string list" where
  "load_input_columns =
     [''Total_Total'', ''volunteers_count'', ''hdb_ratio'', ''elderly_ratio'',
      ''low_income_ratio'', ''AED_count'']"

text \<open>Input tables for concrete runs: a complete table of two subzones, and the same
  table without the column \<open>elderly_ratio\<close>.\<close>

definition complete_table :: dataframe where
  "complete_table =
     \<lparr>df_rows = 2,
      df_columns = [''subzone_code'' \<mapsto> [1, 2], ''Total_Total'' \<mapsto> [1000, 3000],
                    ''elderly_ratio'' \<mapsto> [1/10, 1/5], ''low_income_ratio'' \<mapsto> [1/4, 1/2],
                    ''hdb_ratio'' \<mapsto> [1/2, 1], ''volunteers_count'' \<mapsto> [3, 4],
                    ''AED_count'' \<mapsto> [2, 5]]\<rparr>"

definition table_without_elderly_ratio :: dataframe where
  "table_without_elderly_ratio =
     \<lparr>df_rows = 2,
      df_columns = [''subzone_code'' \<mapsto> [1, 2], ''Total_Total'' \<mapsto> [1000, 3000],
                    ''low_income_ratio'' \<mapsto> [1/4, 1/2],
                    ''hdb_ratio'' \<mapsto> [1/2, 1], ''volunteers_count'' \<mapsto> [3, 4],
                    ''AED_count'' \<mapsto> [2, 5]]\<rparr>"

section \<open>Responder assignment: \<open>volunteer_analysis_latest\<close> and \<open>optimized_volunteer_assignment_simple\<close>\<close>

record volunteer =
  vol_latitude :: real
  vol_longitude :: real
  availability :: int
  response_time :: real

text \<open>
  \<open>create_distance_matrix\<close> is the same in both scripts. The matrix starts as
  \<open>np.full((n_subzones, n_volunteers), np.inf)\<close>; an entry is \<open>None\<close> for \<open>np.inf\<close> and
  \<open>Some d\<close> for a stored distance. The source's default \<open>max_distance\<close> is 1000. Both tables
  carry the default index, so the row labels that \<open>iterrows\<close> yields are the row positions.
\<close>

definition create_distance_matrix ::
  "(point \<Rightarrow> point \<Rightarrow> real) \<Rightarrow> subzone list \<Rightarrow> volunteer list \<Rightarrow> real \<Rightarrow> real option list list"
  where
  "create_distance_matrix geodesic_meters subzone_data volunteer_data max_distance =
     map (\<lambda>subzone.
            let subzone_point = (latitude subzone, longitude subzone) in
            map (\<lambda>volunteer.
                   if availability volunteer = 1 then
                     (let volunteer_point = (vol_latitude volunteer, vol_longitude volunteer);
                          distance = geodesic_meters subzone_point volunteer_point
                      in if distance \<le> max_distance then Some distance else None)
                   else None) volunteer_data) subzone_data"

text \<open>\<open>distance_matrix[i, j] != np.inf\<close>\<close>

definition reachable :: "real option list list \<Rightarrow> nat \<Rightarrow> nat \<Rightarrow> bool" where
  "reachable distance_matrix i j = (distance_matrix ! i ! j \<noteq> None)"

text \<open>
  A binary program as PuLP receives it: the declared binary variables \<open>x[(i, j)]\<close>, the
  objective as (variable, weight) terms, and the constraints, each a list of variables
  whose sum is bounded from above. The solver is a parameter: it maps the program to a
  status and a value for every variable; status 1 is \<open>Optimal\<close>.
\<close>

type_synonym var = "nat \<times> nat"

record binary_program =
  bp_variables :: "var list"
  bp_objective :: "(var \<times> real) list"
  bp_constraints :: "(var list \<times> int) list"

type_synonym bp_solver = "binary_program \<Rightarrow> int \<times> (var \<Rightarrow> int)"

text \<open>\<open>[x[i, j] for i in range(n_subzones) if distance_matrix[i, j] != np.inf]\<close>\<close>

definition responder_terms :: "real option list list \<Rightarrow> nat \<Rightarrow> nat \<Rightarrow> var list" where
  "responder_terms distance_matrix n_subzones j =
     map (\<lambda>i. (i, j)) (filter (\<lambda>i. reachable distance_matrix i j) [0..<n_subzones])"

text \<open>\<open>[x[i, j] for j in range(n_volunteers) if distance_matrix[i, j] != np.inf]\<close>\<close>

definition subzone_terms :: "real option list list \<Rightarrow> nat \<Rightarrow> nat \<Rightarrow> var list" where
  "subzone_terms distance_matrix n_volunteers i =
     map (\<lambda>j. (i, j)) (filter (\<lambda>j. reachable distance_matrix i j) [0..<n_volunteers])"

subsection \<open>\<open>volunteer_analysis_latest.optimize_volunteer_assignment\<close>\<close>

text \<open>
  Variables for all pairs; objective terms for reachable pairs, weighted by
  \<open>priority_score / (distance + 1)\<close>, where \<open>priority_score\<close> is the product of the
  normalised risk score and the area weight; one constraint per volunteer with bound 1
  and one per subzone with bound 3. The status of the solver is not inspected.
\<close>

definition latest_program ::
  "subzone list \<Rightarrow> volunteer list \<Rightarrow> real option list list \<Rightarrow> binary_program" where
  "latest_program subzone_data volunteer_data distance_matrix =
     (let n_subzones = length subzone_data;
          n_volunteers = length volunteer_data;
          pairs = List.product [0..<n_subzones] [0..<n_volunteers]
      in \<lparr>bp_variables = pairs,
          bp_objective =
            concat (map (\<lambda>(i, j).
                      case distance_matrix ! i ! j of
                        None \<Rightarrow> []
                      | Some d \<Rightarrow>
                          [((i, j), normalized_risk_score (subzone_data ! i)
                                     * area_weight (subzone_data ! i) * (1 / (d + 1)))]) pairs),
          bp_constraints =
            map (\<lambda>j. (responder_terms distance_matrix n_subzones j, 1)) [0..<n_volunteers]
            @ map (\<lambda>i. (subzone_terms distance_matrix n_volunteers i, 3)) [0..<n_subzones]\<rparr>)"

definition optimize_volunteer_assignment_latest ::
  "bp_solver \<Rightarrow> subzone list \<Rightarrow> volunteer list \<Rightarrow> real option list list \<Rightarrow> var list" where
  "optimize_volunteer_assignment_latest solve subzone_data volunteer_data distance_matrix =
     (let n_subzones = length subzone_data;
          n_volunteers = length volunteer_data;
          (status, x) = solve (latest_program subzone_data volunteer_data distance_matrix)
      in filter (\<lambda>(i, j). reachable distance_matrix i j \<and> x (i, j) = 1)
           (List.product [0..<n_subzones] [0..<n_volunteers]))"

subsection \<open>\<open>optimized_volunteer_assignment_simple.optimize_volunteer_assignment\<close>\<close>

text \<open>
  Variables for the reachable pairs only; each weighted by risk score times area weight
  over the volunteer's response time; one constraint with bound 1 per available volunteer
  with at least one reachable subzone. The block labelled as the second constraint only
  counts high-priority subzones and adds nothing to the program. The result is \<open>None\<close>
  unless the status is \<open>Optimal\<close>.
\<close>

definition valid_pairs :: "nat \<Rightarrow> nat \<Rightarrow> real option list list \<Rightarrow> var list" where
  "valid_pairs n_subzones n_volunteers distance_matrix =
     filter (\<lambda>(i, j). reachable distance_matrix i j)
       (List.product [0..<n_subzones] [0..<n_volunteers])"

definition simple_program ::
  "subzone list \<Rightarrow> volunteer list \<Rightarrow> real option list list \<Rightarrow> binary_program" where
  "simple_program subzone_data volunteer_data distance_matrix =
     (let n_subzones = length subzone_data;
          n_volunteers = length volunteer_data;
          pairs = valid_pairs n_subzones n_volunteers distance_matrix
      in \<lparr>bp_variables = pairs,
          bp_objective =
            map (\<lambda>(i, j). ((i, j), normalized_risk_score (subzone_data ! i)
                                    * area_weight (subzone_data ! i)
                                    * (1 / response_time (volunteer_data ! j)))) pairs,
          bp_constraints =
            concat (map (\<lambda>j.
                      if availability (volunteer_data ! j) = 1 then
                        (let valid_assignments = responder_terms distance_matrix n_subzones j
                         in if valid_assignments \<noteq> [] then [(valid_assignments, 1)] else [])
                      else []) [0..<n_volunteers])\<rparr>)"

definition optimize_volunteer_assignment_simple ::
  "bp_solver \<Rightarrow> subzone list \<Rightarrow> volunteer list \<Rightarrow> real option list list \<Rightarrow> var list option"
  where
  "optimize_volunteer_assignment_simple solve subzone_data volunteer_data distance_matrix =
     (let n_subzones = length subzone_data;
          n_volunteers = length volunteer_data;
          (status, x) = solve (simple_program subzone_data volunteer_data distance_matrix)
      in if status = 1
         then Some (filter (\<lambda>v. x v = 1) (valid_pairs n_subzones n_volunteers distance_matrix))
         else None)"

subsection \<open>The solver's contract\<close>

text \<open>
  What a value assignment must satisfy to be a solution of a program: every declared
  variable is 0 or 1 and every constraint holds. With status \<open>Optimal\<close> the solver returns
  a feasible assignment of maximal objective value. A declared variable that occurs in no
  constraint and no objective term is not part of the program PuLP solves and has no value
  afterwards; here it has the value 0, and no modelled function reads it.
\<close>

definition feasible :: "binary_program \<Rightarrow> (var \<Rightarrow> int) \<Rightarrow> bool" where
  "feasible p x =
     (list_all (\<lambda>v. x v = 0 \<or> x v = 1) (bp_variables p)
      \<and> list_all (\<lambda>(vs, bound). sum_list (map x vs) \<le> bound) (bp_constraints p))"

definition objective_value :: "binary_program \<Rightarrow> (var \<Rightarrow> int) \<Rightarrow> real" where
  "objective_value p x = sum_list (map (\<lambda>(v, w). w * real_of_int (x v)) (bp_objective p))"

definition optimal :: "binary_program \<Rightarrow> (var \<Rightarrow> int) \<Rightarrow> bool" where
  "optimal p x =
     (feasible p x \<and> (\<forall>y. feasible p y \<longrightarrow> objective_value p y \<le> objective_value p x))"

text \<open>
  Inputs for concrete runs: one subzone with four available volunteers within 50 m, and
  solvers that report \<open>Optimal\<close> with every variable at 1, or with only the first
  volunteer assigned.
\<close>

definition one_subzone :: "subzone list" where
  "one_subzone =
     [\<lparr>latitude = 13/10, longitude = 1038/10, AED_count = 1, normalized_risk_score = 1,
       area_weight = 1, normalized_density = 1\<rparr>]"

definition four_volunteers :: "volunteer list" where
  "four_volunteers =
     [\<lparr>vol_latitude = 13001/10000, vol_longitude = 1038/10, availability = 1, response_time = 5\<rparr>,
      \<lparr>vol_latitude = 13002/10000, vol_longitude = 1038/10, availability = 1, response_time = 5\<rparr>,
      \<lparr>vol_latitude = 13003/10000, vol_longitude = 1038/10, availability = 1, response_time = 4\<rparr>,
      \<lparr>vol_latitude = 13004/10000, vol_longitude = 1038/10, availability = 1, response_time = 2\<rparr>]"

text \<open>
  A second input: the three subzones of the coverage example, of which the first two are
  111 m apart, with two available volunteers who are both within 1000 m of the first two
  subzones and out of reach of the third. \<open>crossed_solver\<close> reports \<open>Optimal\<close> with the
  first volunteer at the second subzone and the second volunteer at the first;
  \<open>double_booking_solver\<close> reports values that put the first volunteer at both subzones,
  which no constraint of either program allows.
\<close>

definition shared_volunteers :: "volunteer list" where
  "shared_volunteers =
     [\<lparr>vol_latitude = 13005/10000, vol_longitude = 1038/10, availability = 1, response_time = 5\<rparr>,
      \<lparr>vol_latitude = 13/10, vol_longitude = 1038/10, availability = 1, response_time = 4\<rparr>]"

definition crossed_solver :: bp_solver where
  "crossed_solver problem = (1, \<lambda>v. if v = (0, 1) \<or> v = (1, 0) then 1 else 0)"

definition double_booking_solver :: bp_solver where
  "double_booking_solver problem = (1, \<lambda>v. if v = (0, 0) \<or> v = (1, 0) then 1 else 0)"

definition all_ones_solver :: bp_solver where
  "all_ones_solver problem = (1, \<lambda>v. 1)"

definition first_volunteer_solver :: bp_solver where
  "first_volunteer_solver problem = (1, \<lambda>v. if v = (0, 0) then 1 else 0)"

section \<open>Properties\<close>

subsection \<open>Allocation: auxiliary facts\<close>

lemma sum_list_bump:
  fixes xs :: "int list"
  shows "i < length xs \<Longrightarrow> sum_list (xs[i := xs ! i + d]) = sum_list xs + d"
proof (induction xs arbitrary: i)
  case Nil
  then show ?case by simp
next
  case (Cons x xs)
  then show ?case by (cases i) simp_all
qed

lemma series_lookup_in_range:
  assumes "length vs = n" and "k < n"
  shows "\<exists>v. series_getitem (series_reversed (zip [0..<n] vs)) k = Inr v \<and> v \<in> set vs"
proof -
  have "map fst (zip [0..<n] vs) = [0..<n]"
    using assms by (simp add: map_fst_zip)
  then have "fst ` set (zip [0..<n] vs) = set [0..<n]"
    by (metis set_map)
  then have "k \<in> fst ` set (rev (zip [0..<n] vs))"
    using assms by simp
  then obtain v where v: "map_of (rev (zip [0..<n] vs)) k = Some v"
    by (metis map_of_eq_None_iff not_Some_eq)
  then have "(k, v) \<in> set (zip [0..<n] vs)"
    using map_of_SomeD by fastforce
  then have "v \<in> set vs" by (rule set_zip_rightD)
  with v show ?thesis by (simp add: series_getitem_def series_reversed_def)
qed

lemma argsort_lookup:
  assumes "k < length scores"
  shows "\<exists>v. series_getitem (series_reversed (np_argsort scores)) k = Inr v \<and> v < length scores"
proof -
  let ?vs = "sort_key (\<lambda>i. scores ! i) [0..<length scores]"
  have "length ?vs = length scores" by simp
  from series_lookup_in_range[OF this assms]
  obtain v where "series_getitem (series_reversed (zip [0..<length scores] ?vs)) k = Inr v" "v \<in> set ?vs"
    by blast
  then show ?thesis by (auto simp: np_argsort_def)
qed

lemma remainder_loop_total:
  assumes "pri \<noteq> []"
    and "\<forall>k<length pri. \<exists>v. series_getitem pri k = Inr v \<and> v < length alloc"
  shows "\<exists>alloc'. remainder_loop pri is alloc = Inr alloc' \<and> length alloc' = length alloc
           \<and> sum_list alloc' = sum_list alloc + int (length is)
           \<and> (\<forall>j<length alloc. alloc ! j \<le> alloc' ! j)"
  using assms(2)
proof (induction "is" arbitrary: alloc)
  case Nil
  then show ?case by simp
next
  case (Cons i rest)
  have pos: "0 < length pri" using assms(1) by simp
  then have "i mod length pri < length pri" by simp
  with Cons.prems obtain idx where idx: "series_getitem pri (i mod length pri) = Inr idx"
    "idx < length alloc" by blast
  let ?a = "alloc[idx := alloc ! idx + 1]"
  have "\<forall>k<length pri. \<exists>v. series_getitem pri k = Inr v \<and> v < length ?a"
    using Cons.prems by simp
  from Cons.IH[OF this] obtain alloc' where a':
    "remainder_loop pri rest ?a = Inr alloc'" "length alloc' = length ?a"
    "sum_list alloc' = sum_list ?a + int (length rest)"
    "\<forall>j<length ?a. ?a ! j \<le> alloc' ! j" by blast
  have step: "remainder_loop pri (i # rest) alloc = Inr alloc'"
    using pos idx a'(1) by simp
  have sum: "sum_list alloc' = sum_list alloc + int (length (i # rest))"
    using a'(3) idx(2) by (simp add: sum_list_bump)
  have mono: "\<forall>j<length alloc. alloc ! j \<le> alloc' ! j"
  proof (intro allI impI)
    fix j assume j: "j < length alloc"
    have "alloc ! j \<le> ?a ! j" using j by (cases "j = idx") simp_all
    also have "\<dots> \<le> alloc' ! j" using a'(4) j by simp
    finally show "alloc ! j \<le> alloc' ! j" .
  qed
  show ?case using step sum mono a'(2) by simp
qed

lemma py_int_bounds: "0 \<le> x \<Longrightarrow> 0 \<le> py_int x \<and> real_of_int (py_int x) \<le> x"
  by (simp add: py_int_def)

lemma proportional_nonneg:
  assumes "\<forall>p\<in>set scores. 0 \<le> p" and "0 \<le> r"
  shows "\<forall>e\<in>set (proportional_allocation scores r). 0 \<le> e"
proof -
  have "0 \<le> py_int (real_of_int r * (p / sum_list scores))"
    if "p \<in> set scores" "0 < sum_list scores" for p
    using that assms by (intro conjunct1[OF py_int_bounds]) simp
  then show ?thesis by (auto simp: proportional_allocation_def Let_def)
qed

lemma of_int_sum_list_map:
  "real_of_int (sum_list (map f xs)) = (\<Sum>x\<leftarrow>xs. real_of_int (f x))"
  by (induction xs) simp_all

lemma sum_list_scaled: "(\<Sum>p\<leftarrow>xs. c * (p / s)) = c * (sum_list xs / s)" for c s :: real
  by (induction xs) (simp_all add: algebra_simps add_divide_distrib)

lemma proportional_sum_le:
  assumes "\<forall>p\<in>set scores. 0 \<le> p" and "0 \<le> r"
  shows "sum_list (proportional_allocation scores r) \<le> r"
proof (cases "0 < sum_list scores")
  case True
  let ?f = "\<lambda>p. real_of_int r * (p / sum_list scores)"
  have "real_of_int (sum_list (map (\<lambda>p. py_int (?f p)) scores))
          = (\<Sum>p\<leftarrow>scores. real_of_int (py_int (?f p)))"
    by (rule of_int_sum_list_map)
  also have "\<dots> \<le> (\<Sum>p\<leftarrow>scores. ?f p)"
  proof (rule sum_list_mono)
    fix p assume "p \<in> set scores"
    then have "0 \<le> ?f p" using assms True by simp
    then show "real_of_int (py_int (?f p)) \<le> ?f p" using py_int_bounds by blast
  qed
  also have "\<dots> = real_of_int r * (sum_list scores / sum_list scores)"
    by (rule sum_list_scaled)
  also have "\<dots> = real_of_int r" using True by simp
  finally show ?thesis using True by (simp add: proportional_allocation_def Let_def)
next
  case False
  then show ?thesis using assms(2) by (simp add: proportional_allocation_def Let_def)
qed

lemma final_allocation_total:
  assumes ne: "subzone_data \<noteq> []"
    and nonneg: "\<forall>z\<in>set subzone_data. 0 \<le> normalized_risk_score z * area_weight z"
    and budget: "int (length subzone_data) \<le> B"
  shows "\<exists>alloc. final_aed_allocation_budget B subzone_data = Inr alloc
           \<and> length alloc = length subzone_data
           \<and> (\<forall>a\<in>set alloc. 1 \<le> a) \<and> sum_list alloc = B"
proof -
  let ?n = "length subzone_data"
  let ?scores = "priority_scores subzone_data"
  let ?r = "B - int ?n"
  let ?shares = "proportional_allocation ?scores ?r"
  let ?base = "map (\<lambda>e. 1 + e) ?shares"
  let ?pri = "series_reversed (np_argsort ?scores)"
  have len_scores: "length ?scores = ?n" by (simp add: priority_scores_def)
  have scores_nonneg: "\<forall>p\<in>set ?scores. 0 \<le> p"
    using nonneg by (auto simp: priority_scores_def)
  have r_nonneg: "0 \<le> ?r" using budget by simp
  have len_shares: "length ?shares = ?n"
    by (simp add: proportional_allocation_def Let_def len_scores)
  have len_base: "length ?base = ?n" using len_shares by simp
  have base_ge: "\<forall>a\<in>set ?base. 1 \<le> a"
    using proportional_nonneg[OF scores_nonneg r_nonneg] by auto
  have "sum_list ?base = int ?n + sum_list ?shares"
    using len_shares by (simp add: sum_list_addf sum_list_replicate map_replicate_const)
  then have sum_base: "sum_list ?base \<le> B"
    using proportional_sum_le[OF scores_nonneg r_nonneg] by simp
  show ?thesis
  proof (cases "0 < B - sum_list ?base")
    case False
    then have "final_aed_allocation_budget B subzone_data = Inr ?base"
      by (simp add: final_aed_allocation_budget_def Let_def)
    moreover have "sum_list ?base = B" using False sum_base by simp
    ultimately show ?thesis using len_base base_ge by blast
  next
    case True
    have len_pri: "length ?pri = ?n"
      by (simp add: series_reversed_def np_argsort_def len_scores)
    have pri_ne: "?pri \<noteq> []"
      using ne len_pri by (metis length_0_conv)
    have lookups: "\<forall>k<length ?pri. \<exists>v. series_getitem ?pri k = Inr v \<and> v < length ?base"
      using argsort_lookup[of _ ?scores] len_pri len_scores len_base by metis
    from remainder_loop_total[OF pri_ne lookups, of "[0..<nat (B - sum_list ?base)]"]
    obtain alloc where alloc:
      "remainder_loop ?pri [0..<nat (B - sum_list ?base)] ?base = Inr alloc"
      "length alloc = length ?base"
      "sum_list alloc = sum_list ?base + int (length [0..<nat (B - sum_list ?base)])"
      "\<forall>j<length ?base. ?base ! j \<le> alloc ! j" by blast
    have run: "final_aed_allocation_budget B subzone_data = Inr alloc"
      using True alloc(1) by (simp add: final_aed_allocation_budget_def Let_def)
    have total: "sum_list alloc = B" using alloc(3) True by simp
    have "\<forall>a\<in>set alloc. 1 \<le> a"
    proof
      fix a assume "a \<in> set alloc"
      then obtain j where j: "j < length alloc" "alloc ! j = a"
        by (auto simp: in_set_conv_nth)
      then have "?base ! j \<in> set ?base" using alloc(2) by (metis nth_mem)
      then have "1 \<le> ?base ! j" using base_ge by blast
      also have "\<dots> \<le> alloc ! j" using alloc(4) j(1) alloc(2) by simp
      finally show "1 \<le> a" using j(2) by simp
    qed
    then show ?thesis using run total alloc(2) len_base by simp
  qed
qed

lemma balanced_loop_bounds:
  assumes "\<forall>(i, idx)\<in>set xs. idx < length alloc"
  shows "length (balanced_loop n xs rem alloc) = length alloc
       \<and> sum_list (balanced_loop n xs rem alloc) \<le> sum_list alloc + max rem 0
       \<and> (\<forall>j<length alloc. alloc ! j \<le> balanced_loop n xs rem alloc ! j)"
  using assms
proof (induction xs arbitrary: rem alloc)
  case Nil
  then show ?case by simp
next
  case (Cons x xs)
  obtain i idx where x: "x = (i, idx)" by (cases x)
  show ?case
  proof (cases "rem \<le> 0")
    case True
    then show ?thesis by (simp add: x)
  next
    case False
    define extra where "extra =
       (if real (i + 1) \<le> real n * 0.2 then min rem 5
        else if real (i + 1) \<le> real n * 0.5 then min rem 3 else min rem 1)"
    let ?a = "alloc[idx := alloc ! idx + extra]"
    have extra_bounds: "0 \<le> extra" "extra \<le> rem"
      using False by (auto simp: extra_def)
    have idx: "idx < length alloc" using Cons.prems by (simp add: x)
    have step: "balanced_loop n (x # xs) rem alloc = balanced_loop n xs (rem - extra) ?a"
      using False by (simp add: x extra_def Let_def)
    have "\<forall>(i, idx)\<in>set xs. idx < length ?a" using Cons.prems by simp
    from Cons.IH[OF this, of "rem - extra"]
    have ih: "length (balanced_loop n xs (rem - extra) ?a) = length ?a"
      "sum_list (balanced_loop n xs (rem - extra) ?a) \<le> sum_list ?a + max (rem - extra) 0"
      "\<forall>j<length ?a. ?a ! j \<le> balanced_loop n xs (rem - extra) ?a ! j" by simp_all
    have sum_a: "sum_list ?a = sum_list alloc + extra" using idx by (rule sum_list_bump)
    have s: "sum_list (balanced_loop n (x # xs) rem alloc) \<le> sum_list alloc + max rem 0"
      using ih(2) sum_a extra_bounds step by simp
    have m: "\<forall>j<length alloc. alloc ! j \<le> balanced_loop n (x # xs) rem alloc ! j"
    proof (intro allI impI)
      fix j assume j: "j < length alloc"
      have "alloc ! j \<le> ?a ! j" using j extra_bounds(1) by (cases "j = idx") simp_all
      also have "\<dots> \<le> balanced_loop n xs (rem - extra) ?a ! j" using ih(3) j by simp
      finally show "alloc ! j \<le> balanced_loop n (x # xs) rem alloc ! j" using step by simp
    qed
    show ?thesis using s m ih(1) step by simp
  qed
qed

lemma balanced_allocation_bounds:
  assumes "int (length subzone_data) \<le> sum_list (map AED_count subzone_data)"
  shows "length (balanced_aed_allocation subzone_data) = length subzone_data
       \<and> (\<forall>a\<in>set (balanced_aed_allocation subzone_data). 1 \<le> a)
       \<and> sum_list (balanced_aed_allocation subzone_data) \<le> sum_list (map AED_count subzone_data)"
proof -
  let ?n = "length subzone_data"
  let ?B = "sum_list (map AED_count subzone_data)"
  let ?scores = "priority_scores subzone_data"
  let ?vals = "series_values (series_reversed (np_argsort ?scores))"
  let ?xs = "zip [0..<length ?vals] ?vals"
  let ?base = "replicate ?n (1::int)"
  show ?thesis
  proof (cases "0 < ?B - int ?n")
    case False
    then have "balanced_aed_allocation subzone_data = ?base"
      by (simp add: balanced_aed_allocation_def Let_def)
    then show ?thesis using False assms by (simp add: sum_list_replicate)
  next
    case True
    have run: "balanced_aed_allocation subzone_data = balanced_loop ?n ?xs (?B - int ?n) ?base"
      using True by (simp add: balanced_aed_allocation_def Let_def)
    have "set ?vals = {0..<length ?scores}"
      by (simp add: series_values_def series_reversed_def np_argsort_def rev_map[symmetric])
    then have "\<forall>(i, idx)\<in>set ?xs. idx < length ?base"
      by (auto simp: priority_scores_def dest!: set_zip_rightD)
    from balanced_loop_bounds[OF this, of ?n "?B - int ?n"]
    have b: "length (balanced_loop ?n ?xs (?B - int ?n) ?base) = length ?base"
      "sum_list (balanced_loop ?n ?xs (?B - int ?n) ?base) \<le> sum_list ?base + max (?B - int ?n) 0"
      "\<forall>j<length ?base. ?base ! j \<le> balanced_loop ?n ?xs (?B - int ?n) ?base ! j" by simp_all
    have ge: "\<forall>a\<in>set (balanced_aed_allocation subzone_data). 1 \<le> a"
    proof
      fix a assume "a \<in> set (balanced_aed_allocation subzone_data)"
      then obtain j where j: "j < length (balanced_aed_allocation subzone_data)"
        "balanced_aed_allocation subzone_data ! j = a" by (auto simp: in_set_conv_nth)
      then have "j < ?n" using run b(1) by simp
      then show "1 \<le> a" using b(3) j(2) run by fastforce
    qed
    have "sum_list (balanced_aed_allocation subzone_data) \<le> ?B"
      using b(2) True run by (simp add: sum_list_replicate)
    then show ?thesis using ge run b(1) by simp
  qed
qed

subsection \<open>Allocation: what the two policies return\<close>

lemma scenario_A_scores: "priority_scores scenario_A = [1/10, 1/2, 9/10]"
  by (simp add: priority_scores_def scenario_A_def)

lemma scenario_A_proportional:
  "proportional_allocation (priority_scores scenario_A) 3 = [0, 1, 1]"
  by (simp add: scenario_A_scores proportional_allocation_def py_int_def Let_def)

text \<open>
  The priority Series of Scenario A is \<open>np.argsort([0.1, 0.5, 0.9])[::-1]\<close>, with labels
  \<open>2, 1, 0\<close> and values \<open>2, 1, 0\<close> in positional order. The remainder loop reads
  \<open>priority_indices[0]\<close>, the value with \<^emph>\<open>label\<close> 0, which is the position of the lowest score:
  the one unit left after the proportional step goes to the first subzone.
\<close>

lemma scenario_A_priority_indices:
  "series_reversed (np_argsort (priority_scores scenario_A)) = [(2, 2), (1, 1), (0, 0)]
   \<and> series_getitem (series_reversed (np_argsort (priority_scores scenario_A))) 0 = Inr 0"
  by (simp add: scenario_A_scores np_argsort_def series_reversed_def series_getitem_def upt_rec)

lemma scenario_A_result: "final_aed_allocation_budget 6 scenario_A = Inr [2, 2, 2]"
  by (simp add: final_aed_allocation_budget_def scenario_A_scores scenario_A_def[THEN arg_cong, of length]
      proportional_allocation_def py_int_def np_argsort_def series_reversed_def
      series_getitem_def Let_def upt_rec)

text \<open>
  Two inputs outside the hypotheses of the budget theorem below. On an empty table with a
  positive budget the remainder loop evaluates \<open>i % 0\<close>. With negative scores the truncated
  shares can add up to more than the units to distribute, and nothing takes the excess back.
\<close>

lemma final_allocation_empty_table: "final_aed_allocation_budget 5 [] = Inl ZeroDivisionError"
  by (simp add: final_aed_allocation_budget_def priority_scores_def proportional_allocation_def
      np_argsort_def series_reversed_def Let_def upt_rec)

lemma final_allocation_negative_scores:
  "final_aed_allocation_budget 4
     [\<lparr>latitude = 0, longitude = 0, AED_count = 0, normalized_risk_score = -1, area_weight = 1,
      normalized_density = 1\<rparr>,
      \<lparr>latitude = 0, longitude = 0, AED_count = 0, normalized_risk_score = -1, area_weight = 1,
      normalized_density = 1\<rparr>,
      \<lparr>latitude = 0, longitude = 0, AED_count = 0, normalized_risk_score = 4, area_weight = 1,
      normalized_density = 1\<rparr>]
   = Inr [1, 1, 3]"
  by (simp add: final_aed_allocation_budget_def priority_scores_def proportional_allocation_def
      py_int_def ceiling_minus Let_def)

text \<open>
  C1 (as amended). For the proportional policy \<open>final_aed_allocation\<close>, run with any budget
  \<open>B\<close> in place of the built-in 6613: on every non-empty subzone table whose priority scores
  are non-negative (all zero included) and every budget \<open>B\<close> at least the number of
  subzones, the function returns an allocation with one entry per subzone, every entry an
  integer at least 1, and the entries sum to \<open>B\<close> exactly. For the tiered policy
  \<open>balanced_aed_allocation\<close>, whose budget is the sum of the \<open>AED_count\<close> column: when that
  budget is at least the number of subzones, every entry is an integer at least 1 and the
  entries sum to at most the budget (the per-rank caps of 5, 3 and 1 extra units can leave
  units undistributed).
\<close>

theorem fallback_allocation_budget:
  "(subzone_data \<noteq> []
      \<and> (\<forall>z\<in>set subzone_data. 0 \<le> normalized_risk_score z * area_weight z)
      \<and> int (length subzone_data) \<le> B
     \<longrightarrow> (\<exists>alloc. final_aed_allocation_budget B subzone_data = Inr alloc
            \<and> length alloc = length subzone_data
            \<and> (\<forall>a\<in>set alloc. 1 \<le> a) \<and> sum_list alloc = B))
   \<and> (int (length subzone_data) \<le> sum_list (map AED_count subzone_data)
     \<longrightarrow> length (balanced_aed_allocation subzone_data) = length subzone_data
         \<and> (\<forall>a\<in>set (balanced_aed_allocation subzone_data). 1 \<le> a)
         \<and> sum_list (balanced_aed_allocation subzone_data)
               \<le> sum_list (map AED_count subzone_data))"
  using final_allocation_total[of subzone_data B] balanced_allocation_bounds[of subzone_data]
  by blast

theorem fallback_allocation_budget_witness:
  "scenario_A \<noteq> []
   \<and> list_all (\<lambda>z. 0 \<le> normalized_risk_score z * area_weight z) scenario_A
   \<and> int (length scenario_A) \<le> 6
   \<and> (\<exists>alloc. final_aed_allocation_budget 6 scenario_A = Inr alloc
            \<and> length alloc = length scenario_A
            \<and> list_all (\<lambda>a. 1 \<le> a) alloc \<and> sum_list alloc = 6)
   \<and> int (length scenario_A) \<le> sum_list (map AED_count scenario_A)
   \<and> length (balanced_aed_allocation scenario_A) = length scenario_A
   \<and> list_all (\<lambda>a. 1 \<le> a) (balanced_aed_allocation scenario_A)
   \<and> sum_list (balanced_aed_allocation scenario_A) \<le> sum_list (map AED_count scenario_A)"
proof -
  have h1: "scenario_A \<noteq> []" "int (length scenario_A) \<le> 6"
    by (simp_all add: scenario_A_def)
  have h2: "list_all (\<lambda>z. 0 \<le> normalized_risk_score z * area_weight z) scenario_A"
    by (simp add: scenario_A_def)
  have h3: "int (length scenario_A) \<le> sum_list (map AED_count scenario_A)"
    by (simp add: scenario_A_def)
  from fallback_allocation_budget[of scenario_A 6] h1 h2 h3 show ?thesis
    unfolding list_all_iff by blast
qed

text \<open>
  C1 as stated fails for the tiered policy: one subzone holding 10 devices gives a budget of
  10, its rank 1 is neither within the top 20 percent nor within the top 50 percent of one
  subzone, so it receives one extra unit and the allocation is \<open>[2]\<close>.
\<close>

theorem balanced_allocation_counterexample:
  "int (length single_subzone) \<le> sum_list (map AED_count single_subzone)
   \<and> sum_list (map AED_count single_subzone) = 10
   \<and> balanced_aed_allocation single_subzone = [2]
   \<and> sum_list (balanced_aed_allocation single_subzone)
        \<noteq> sum_list (map AED_count single_subzone)"
  by (simp add: single_subzone_def balanced_aed_allocation_def priority_scores_def
      np_argsort_def series_reversed_def series_values_def Let_def)

text \<open>
  C2 as stated fails: on Scenario A with budget 6 the function does not return \<open>[1, 1, 4]\<close>.
\<close>

theorem scenario_A_counterexample:
  "final_aed_allocation_budget 6 scenario_A \<noteq> Inr [1, 1, 4]"
  by (simp add: scenario_A_result)

text \<open>
  C2 (as amended). On Scenario A with budget 6 the truncated proportional shares of the 3
  remaining units are \<open>[0, 1, 1]\<close>, so base plus shares is \<open>[1, 2, 2]\<close> and one unit is left;
  the function returns an allocation that sums to 6 and is entrywise at least \<open>[1, 2, 2]\<close>.
\<close>

theorem scenario_A_allocation:
  "proportional_allocation (priority_scores scenario_A) (6 - int (length scenario_A)) = [0, 1, 1]
   \<and> (\<exists>alloc. final_aed_allocation_budget 6 scenario_A = Inr alloc
          \<and> sum_list alloc = 6 \<and> list_all2 (\<le>) [1, 2, 2] alloc)"
proof -
  have "6 - int (length scenario_A) = 3" by (simp add: scenario_A_def)
  then have "proportional_allocation (priority_scores scenario_A) (6 - int (length scenario_A))
               = [0, 1, 1]"
    by (simp add: scenario_A_proportional)
  moreover have "\<exists>alloc. final_aed_allocation_budget 6 scenario_A = Inr alloc
          \<and> sum_list alloc = 6 \<and> list_all2 (\<le>) [1, 2, 2] alloc"
    by (simp add: scenario_A_result)
  ultimately show ?thesis by blast
qed

text \<open>
  C9. The proportional policy is a function of the priority-score vector and the budget
  alone: two subzone tables with the same priority scores (whatever their other columns)
  and the same budget give the same outcome, element by element.
\<close>

theorem final_allocation_deterministic:
  "priority_scores sd1 = priority_scores sd2 \<Longrightarrow>
     final_aed_allocation_budget B sd1 = final_aed_allocation_budget B sd2"
proof -
  assume eq: "priority_scores sd1 = priority_scores sd2"
  then have "length (priority_scores sd1) = length (priority_scores sd2)" by simp
  then have "length sd1 = length sd2" by (simp add: priority_scores_def)
  with eq show ?thesis by (simp add: final_aed_allocation_budget_def)
qed

theorem final_allocation_deterministic_witness:
  "priority_scores scenario_A = priority_scores scenario_A_relabelled
   \<and> final_aed_allocation_budget 6 scenario_A
       = final_aed_allocation_budget 6 scenario_A_relabelled"
proof -
  have h: "priority_scores scenario_A = priority_scores scenario_A_relabelled"
    by (simp add: priority_scores_def scenario_A_def scenario_A_relabelled_def)
  from final_allocation_deterministic[OF h, of 6] h show ?thesis by simp
qed

subsection \<open>Coverage matrix\<close>

lemma coverage_matrix_entry:
  assumes "i < length subzone_data" and "j < length subzone_data"
  shows "create_coverage_matrix geodesic_meters subzone_data coverage_radius ! i ! j =
           (if i \<noteq> j \<and>
               geodesic_meters (latitude (subzone_data ! i), longitude (subzone_data ! i))
                 (latitude (subzone_data ! j), longitude (subzone_data ! j)) \<le> coverage_radius
            then 1 else 0)"
  using assms by (simp add: create_coverage_matrix_def Let_def)

lemma three_subzones_matrix:
  "create_coverage_matrix planar_meters three_subzones 200 = [[0, 1, 0], [1, 0, 0], [0, 0, 0]]"
  by (simp add: create_coverage_matrix_def three_subzones_def planar_meters_def Let_def upt_rec)

text \<open>
  C3 as stated fails: the diagonal entry of the first of three subzones, at the default
  radius of 200 m, is 0 and not 1.
\<close>

theorem coverage_diagonal_counterexample:
  "create_coverage_matrix planar_meters three_subzones 200 ! 0 ! 0 = 0
   \<and> create_coverage_matrix planar_meters three_subzones 200 ! 0 ! 0 \<noteq> 1"
  by (simp add: three_subzones_matrix)

text \<open>
  C3 (as amended). The coverage matrix records coverage of \<^emph>\<open>other\<close> subzones only: for every
  subzone \<open>i\<close>, every radius and every distance function, the diagonal entry
  \<open>coverage(i, i)\<close> is 0 (false).
\<close>

theorem coverage_diagonal_zero:
  "i < length subzone_data \<Longrightarrow>
     create_coverage_matrix geodesic_meters subzone_data coverage_radius ! i ! i = 0"
  by (simp add: coverage_matrix_entry)

theorem coverage_diagonal_zero_witness:
  "(1::nat) < length three_subzones
   \<and> create_coverage_matrix planar_meters three_subzones 200 ! 1 ! 1 = 0"
proof -
  have h: "(1::nat) < length three_subzones" by (simp add: three_subzones_def)
  from coverage_diagonal_zero[OF h, of planar_meters 200] h show ?thesis by simp
qed

text \<open>
  C10. When the distance function is symmetric in its two endpoints, the coverage matrix
  is symmetric: \<open>coverage(i, j) = coverage(j, i)\<close> for all subzones \<open>i\<close>, \<open>j\<close> and every
  radius.
\<close>

theorem coverage_matrix_symmetric:
  assumes "\<forall>p q. geodesic_meters p q = geodesic_meters q p"
    and "i < length subzone_data" and "j < length subzone_data"
  shows "create_coverage_matrix geodesic_meters subzone_data coverage_radius ! i ! j
       = create_coverage_matrix geodesic_meters subzone_data coverage_radius ! j ! i"
proof -
  let ?p = "\<lambda>k. (latitude (subzone_data ! k), longitude (subzone_data ! k))"
  have "geodesic_meters (?p i) (?p j) = geodesic_meters (?p j) (?p i)"
    using assms(1) by blast
  then show ?thesis
    using assms(2,3) by (auto simp: coverage_matrix_entry)
qed

theorem coverage_matrix_symmetric_witness:
  "(\<forall>p q. planar_meters p q = planar_meters q p)
   \<and> (0::nat) < length three_subzones \<and> (1::nat) < length three_subzones
   \<and> create_coverage_matrix planar_meters three_subzones 200 ! 0 ! 1 = 1
   \<and> create_coverage_matrix planar_meters three_subzones 200 ! 0 ! 1
       = create_coverage_matrix planar_meters three_subzones 200 ! 1 ! 0"
proof -
  have sym: "\<forall>p q. planar_meters p q = planar_meters q p"
    by (simp add: planar_meters_def abs_minus_commute)
  have h0: "(0::nat) < length three_subzones" and h1: "(1::nat) < length three_subzones"
    by (simp_all add: three_subzones_def)
  have e: "create_coverage_matrix planar_meters three_subzones 200 ! 0 ! 1 = 1"
    by (simp add: three_subzones_matrix)
  from coverage_matrix_symmetric[OF sym h0 h1, of 200] sym h0 h1 e show ?thesis by blast
qed

subsection \<open>Multi-cover deployment and solver failure\<close>

text \<open>
  C5 as stated fails: with a solver status other than \<open>Optimal\<close> the function returns no
  allocation at all, and \<open>main\<close> reports the failure.
\<close>

theorem solver_failure_counterexample:
  "area_weighted_multi_cover_deployment infeasible_solver three_subzones
     (create_coverage_matrix planar_meters three_subzones 200) 4 = None
   \<and> real_aed_optimization_main infeasible_solver planar_meters three_subzones
       = Optimisation_failed"
  by (simp add: area_weighted_multi_cover_deployment_def real_aed_optimization_main_def
      infeasible_solver_def Let_def)

text \<open>
  C5 (as amended). When the solver returns a status other than 1 (\<open>Optimal\<close>),
  \<open>area_weighted_multi_cover_deployment\<close> substitutes no fallback: it returns \<open>None\<close> in
  place of the allocation, and \<open>main\<close>, which builds the matrix at radius 200 and takes the
  budget from the \<open>AED_count\<close> column, reports a failed optimisation and produces no
  allocation.
\<close>

theorem non_optimal_status_gives_no_allocation:
  assumes "fst (solve (deployment_problem subzone_data coverage_matrix total_aeds)) \<noteq> 1"
  shows "area_weighted_multi_cover_deployment solve subzone_data coverage_matrix total_aeds = None
       \<and> (coverage_matrix = create_coverage_matrix geodesic_meters subzone_data 200
            \<and> total_aeds = sum_list (map AED_count subzone_data)
          \<longrightarrow> real_aed_optimization_main solve geodesic_meters subzone_data
                = Optimisation_failed)"
proof -
  have none: "area_weighted_multi_cover_deployment solve subzone_data coverage_matrix total_aeds
                = None"
    using assms
    by (cases "solve (deployment_problem subzone_data coverage_matrix total_aeds)")
       (simp add: area_weighted_multi_cover_deployment_def Let_def)
  then show ?thesis by (auto simp: real_aed_optimization_main_def Let_def)
qed

theorem non_optimal_status_gives_no_allocation_witness:
  "fst (infeasible_solver (deployment_problem three_subzones
          (create_coverage_matrix planar_meters three_subzones 200)
          (sum_list (map AED_count three_subzones)))) \<noteq> 1
   \<and> area_weighted_multi_cover_deployment infeasible_solver three_subzones
       (create_coverage_matrix planar_meters three_subzones 200)
       (sum_list (map AED_count three_subzones)) = None
   \<and> real_aed_optimization_main infeasible_solver planar_meters three_subzones
       = Optimisation_failed"
proof -
  have h: "fst (infeasible_solver (deployment_problem three_subzones
          (create_coverage_matrix planar_meters three_subzones 200)
          (sum_list (map AED_count three_subzones)))) \<noteq> 1"
    by (simp add: infeasible_solver_def)
  from non_optimal_status_gives_no_allocation[of infeasible_solver three_subzones
      "create_coverage_matrix planar_meters three_subzones 200"
      "sum_list (map AED_count three_subzones)" planar_meters] h
  show ?thesis by blast
qed

subsection \<open>Min-max normalisation\<close>

text \<open>
  On a non-degenerate column every normalised score is a finite number in \<open>[0, 1]\<close>, a
  minimal score is sent to 0 and a maximal score to 1.
\<close>

lemma min_max_normalized_in_unit_interval:
  assumes "Min (set risk_score) < Max (set risk_score)" and "i < length risk_score"
  shows "\<exists>v. min_max_normalized risk_score ! i = Fin v \<and> 0 \<le> v \<and> v \<le> 1
           \<and> (risk_score ! i = Min (set risk_score) \<longrightarrow> v = 0)
           \<and> (risk_score ! i = Max (set risk_score) \<longrightarrow> v = 1)"
proof -
  let ?lo = "Min (set risk_score)" and ?hi = "Max (set risk_score)"
  let ?s = "risk_score ! i"
  have ne: "risk_score \<noteq> []" using assms(2) by auto
  have mem: "?s \<in> set risk_score" using assms(2) by simp
  have lo: "?lo \<le> ?s" and hi: "?s \<le> ?hi" using mem by simp_all
  have pos: "0 < ?hi - ?lo" using assms(1) by simp
  have "min_max_normalized risk_score
          = map (\<lambda>s. np_true_divide (s - ?lo) (?hi - ?lo)) risk_score"
    using ne by (cases risk_score) (simp_all add: min_max_normalized_def Let_def)
  then have val: "min_max_normalized risk_score ! i = Fin ((?s - ?lo) / (?hi - ?lo))"
    using assms(2) pos by (simp add: np_true_divide_def)
  have "0 \<le> (?s - ?lo) / (?hi - ?lo)" using lo pos by simp
  moreover have "(?s - ?lo) / (?hi - ?lo) \<le> 1" using hi pos by simp
  moreover have "?s = ?lo \<longrightarrow> (?s - ?lo) / (?hi - ?lo) = 0" by simp
  moreover have "?s = ?hi \<longrightarrow> (?s - ?lo) / (?hi - ?lo) = 1" using pos by simp
  ultimately show ?thesis using val by blast
qed

text \<open>On a degenerate column (all scores equal) every normalised score is NaN.\<close>

lemma min_max_normalized_degenerate:
  assumes "risk_score \<noteq> []" and "\<forall>s\<in>set risk_score. s = c"
  shows "min_max_normalized risk_score = replicate (length risk_score) NaN"
proof -
  have "set risk_score = {c}" using assms by (cases risk_score) auto
  then have "Min (set risk_score) = c" "Max (set risk_score) = c" by simp_all
  then have "min_max_normalized risk_score = map (\<lambda>s. np_true_divide (s - c) 0) risk_score"
    using assms(1) by (cases risk_score) (simp_all add: min_max_normalized_def Let_def)
  also have "\<dots> = map (\<lambda>s. NaN) risk_score"
    using assms(2) by (intro map_cong) (simp_all add: np_true_divide_def)
  finally show ?thesis by (simp add: map_replicate_const)
qed

text \<open>
  C6 fails on the code in its degenerate part: for two subzones with the same raw risk
  score 5 the normalised column is \<open>[NaN, NaN]\<close>, where the specification requires \<open>[0, 0]\<close>.
\<close>

theorem degenerate_normalisation_is_nan:
  "min_max_normalized [5, 5] = [NaN, NaN] \<and> min_max_normalized [5, 5] \<noteq> [Fin 0, Fin 0]"
  by (simp add: min_max_normalized_def np_true_divide_def Let_def)

subsection \<open>Feature preparation: which columns exist, and which exception is raised\<close>

lemma has_column_setitem: "has_column (setitem df c v) c' = (c' = c \<or> has_column df c')"
  by (simp add: has_column_def setitem_def)

lemma getitem_Inl: "getitem df c = Inl e \<longleftrightarrow> e = KeyError c \<and> \<not> has_column df c"
  by (auto simp: getitem_def has_column_def split: option.splits)

lemma getitem_Inr: "getitem df c = Inr v \<Longrightarrow> has_column df c"
  by (auto simp: getitem_def has_column_def split: option.splits)

lemma getitem_present: "has_column df c \<Longrightarrow> \<exists>v. getitem df c = Inr v"
  by (auto simp: getitem_def has_column_def split: option.splits)

lemma py_then_Inl:
  "py_then r f = Inl e \<longleftrightarrow> r = Inl e \<or> (\<exists>v. r = Inr v \<and> f v = Inl e)"
  by (cases r) (simp_all add: py_then_def)

lemma py_then_Inr:
  "py_then r f = Inr y \<longleftrightarrow> (\<exists>v. r = Inr v \<and> f v = Inr y)"
  by (cases r) (simp_all add: py_then_def)

lemma create_mobility_features_Inl:
  assumes "create_mobility_features total_mobility df = Inl e"
  shows "e = ValueError \<or> (e = KeyError ''Total_Total'' \<and> \<not> has_column df ''Total_Total'')"
  using assms
  by (auto simp: create_mobility_features_def Let_def py_then_Inl getitem_Inl split: if_splits)

lemma create_mobility_features_Inr:
  assumes "create_mobility_features total_mobility df = Inr df'"
  shows "has_column df ''Total_Total''
       \<and> (\<forall>c. has_column df' c =
                (c = ''total_mobility'' \<or> c = ''mobility_intensity'' \<or> c = ''risk_exposure''
                 \<or> has_column df c))"
  using assms
  by (auto simp: create_mobility_features_def Let_def py_then_Inr has_column_setitem
           dest: getitem_Inr split: if_splits)

lemma create_paper_features_Inl:
  assumes "create_paper_features h_noise random_factor df = Inl e"
  shows "\<exists>c\<in>set [''Total_Total'', ''elderly_ratio'', ''low_income_ratio'', ''hdb_ratio'',
                  ''risk_exposure'', ''total_mobility'', ''mobility_intensity''].
           e = KeyError c \<and> \<not> has_column df c"
  using assms
  by (auto simp: create_paper_features_def Let_def py_then_Inl getitem_Inl has_column_setitem)

lemma create_paper_features_Inr:
  assumes "create_paper_features h_noise random_factor df = Inr df'"
  shows "(\<forall>c\<in>set [''Total_Total'', ''elderly_ratio'', ''low_income_ratio'', ''hdb_ratio''].
            has_column df c)
       \<and> (\<forall>c\<in>set feature_columns. has_column df' c)
       \<and> has_column df' ''ohca_count''
       \<and> has_column df' ''subzone_code'' = has_column df ''subzone_code''"
  using assms
  by (auto simp: create_paper_features_def Let_def py_then_Inr has_column_setitem
        feature_columns_def dest!: getitem_Inr)

lemma select_columns_Inl:
  assumes "select_columns df cols = Inl e"
  shows "\<exists>c\<in>set cols. e = KeyError c \<and> \<not> has_column df c"
proof (cases "filter (\<lambda>c. \<not> has_column df c) cols")
  case Nil
  then show ?thesis using assms by (simp add: select_columns_def)
next
  case (Cons c rest)
  then have "c \<in> set (filter (\<lambda>c. \<not> has_column df c) cols)" by simp
  then have "c \<in> set cols" "\<not> has_column df c" by simp_all
  moreover have "e = KeyError c" using assms Cons by (simp add: select_columns_def)
  ultimately show ?thesis by blast
qed

lemma select_columns_present:
  assumes "\<forall>c\<in>set cols. has_column df c"
  shows "\<exists>X. select_columns df cols = Inr X"
proof -
  have "filter (\<lambda>c. \<not> has_column df c) cols = []" using assms by (simp add: filter_empty_conv)
  then show ?thesis by (simp add: select_columns_def)
qed

lemma select_columns_Inr:
  assumes "select_columns df cols = Inr X"
  shows "\<forall>c\<in>set cols. has_column df c"
proof (cases "filter (\<lambda>c. \<not> has_column df c) cols")
  case Nil
  then show ?thesis by (simp add: filter_empty_conv)
next
  case (Cons c rest)
  then show ?thesis using assms by (simp add: select_columns_def)
qed

lemma zero_fill_unreachable:
  assumes "create_paper_features h_noise random_factor df = Inr df'"
  shows "filter (\<lambda>c. \<not> has_column df' c) feature_columns = []"
    and "filter (has_column df') feature_columns = feature_columns"
  using create_paper_features_Inr[OF assms] by (simp_all add: filter_empty_conv filter_id_conv)

lemma prepare_features_after_paper_features:
  assumes "create_mobility_features total_mobility pop_df = Inr df1"
    and "create_paper_features h_noise random_factor df1 = Inr df2"
  shows "prepare_features total_mobility h_noise random_factor pop_df =
           py_then (select_columns df2 feature_columns) (\<lambda>selected.
           py_then (getitem df2 ''ohca_count'') (\<lambda>ohca.
           py_then (getitem df2 ''subzone_code'') (\<lambda>codes.
           Inr \<lparr>features = selected, target = ohca, subzone_codes = codes, frame = df2\<rparr>)))"
  using assms zero_fill_unreachable[OF assms(2)]
  by (simp add: prepare_features_def py_then_def Let_def)

lemma prepare_features_fails:
  assumes "\<exists>c\<in>set paper_input_columns. \<not> has_column pop_df c"
  shows "\<exists>e. prepare_features total_mobility h_noise random_factor pop_df = Inl e
           \<and> (e = ValueError
                \<or> (\<exists>c\<in>set paper_input_columns. e = KeyError c \<and> \<not> has_column pop_df c))"
proof (cases "create_mobility_features total_mobility pop_df")
  case (Inl e)
  then have "prepare_features total_mobility h_noise random_factor pop_df = Inl e"
    by (simp add: prepare_features_def py_then_def)
  moreover have "e = ValueError \<or> (e = KeyError ''Total_Total'' \<and> \<not> has_column pop_df ''Total_Total'')"
    using Inl by (rule create_mobility_features_Inl)
  ultimately show ?thesis by (auto simp: paper_input_columns_def)
next
  case (Inr df1)
  note mob = Inr
  note m = create_mobility_features_Inr[OF mob]
  show ?thesis
  proof (cases "create_paper_features h_noise random_factor df1")
    case (Inl e)
    then have run: "prepare_features total_mobility h_noise random_factor pop_df = Inl e"
      using mob by (simp add: prepare_features_def py_then_def)
    from create_paper_features_Inl[OF Inl] obtain c where c:
      "c \<in> set [''Total_Total'', ''elderly_ratio'', ''low_income_ratio'', ''hdb_ratio'',
                  ''risk_exposure'', ''total_mobility'', ''mobility_intensity'']"
      "e = KeyError c" "\<not> has_column df1 c" by blast
    from c(3) m have "\<not> has_column pop_df c" "c \<noteq> ''total_mobility''"
      "c \<noteq> ''mobility_intensity''" "c \<noteq> ''risk_exposure''" by auto
    with c(1) have "c \<in> set paper_input_columns" by (auto simp: paper_input_columns_def)
    with run c(2) \<open>\<not> has_column pop_df c\<close> show ?thesis by blast
  next
    case (Inr df2)
    note p = create_paper_features_Inr[OF Inr]
    have four: "has_column pop_df ''Total_Total''" "has_column pop_df ''elderly_ratio''"
      "has_column pop_df ''low_income_ratio''" "has_column pop_df ''hdb_ratio''"
      using p m by auto
    with assms have absent: "\<not> has_column pop_df ''subzone_code''"
      by (auto simp: paper_input_columns_def)
    then have "\<not> has_column df2 ''subzone_code''" using p m by auto
    then have codes: "getitem df2 ''subzone_code'' = Inl (KeyError ''subzone_code'')"
      by (simp add: getitem_Inl)
    obtain X where X: "select_columns df2 feature_columns = Inr X"
      using select_columns_present p by blast
    obtain t where t: "getitem df2 ''ohca_count'' = Inr t"
      using getitem_present p by blast
    have "prepare_features total_mobility h_noise random_factor pop_df
            = Inl (KeyError ''subzone_code'')"
      using prepare_features_after_paper_features[OF mob Inr] X t codes
      by (simp add: py_then_def)
    then show ?thesis using absent by (auto simp: paper_input_columns_def)
  qed
qed

text \<open>
  The ValueError belongs to the empty mobility vector alone: it is raised whenever the
  vector is empty, and never otherwise.
\<close>

lemma prepare_features_empty:
  "prepare_features [] h_noise random_factor pop_df = Inl ValueError"
  by (simp add: prepare_features_def create_mobility_features_def py_then_def Let_def)

lemma create_mobility_features_ValueError:
  "create_mobility_features total_mobility df = Inl ValueError \<Longrightarrow> total_mobility = []"
  by (auto simp: create_mobility_features_def Let_def py_then_Inl getitem_Inl split: if_splits)

lemma prepare_features_ValueError:
  assumes "prepare_features total_mobility h_noise random_factor pop_df = Inl ValueError"
  shows "total_mobility = []"
proof (cases "create_mobility_features total_mobility pop_df")
  case (Inl e)
  then have "prepare_features total_mobility h_noise random_factor pop_df = Inl e"
    by (simp add: prepare_features_def py_then_def)
  with assms Inl have "create_mobility_features total_mobility pop_df = Inl ValueError"
    by simp
  then show ?thesis by (rule create_mobility_features_ValueError)
next
  case (Inr df1)
  note mob = Inr
  show ?thesis
  proof (cases "create_paper_features h_noise random_factor df1")
    case (Inl e)
    then have "prepare_features total_mobility h_noise random_factor pop_df = Inl e"
      using mob by (simp add: prepare_features_def py_then_def)
    with assms have "e = ValueError" by simp
    with create_paper_features_Inl[OF Inl] show ?thesis by auto
  next
    case (Inr df2)
    from assms prepare_features_after_paper_features[OF mob Inr]
    have "py_then (select_columns df2 feature_columns) (\<lambda>selected.
           py_then (getitem df2 ''ohca_count'') (\<lambda>ohca.
           py_then (getitem df2 ''subzone_code'') (\<lambda>codes.
           Inr \<lparr>features = selected, target = ohca, subzone_codes = codes, frame = df2\<rparr>)))
          = Inl ValueError"
      by simp
    then show ?thesis
      by (auto simp: py_then_Inl getitem_Inl dest: select_columns_Inl)
  qed
qed

lemma prepare_features_fails_sharp:
  assumes "\<exists>c\<in>set paper_input_columns. \<not> has_column pop_df c"
  shows "\<exists>e. prepare_features total_mobility h_noise random_factor pop_df = Inl e
           \<and> (total_mobility = [] \<longrightarrow> e = ValueError)
           \<and> (total_mobility \<noteq> [] \<longrightarrow>
                (\<exists>c\<in>set paper_input_columns. e = KeyError c \<and> \<not> has_column pop_df c))"
proof -
  from prepare_features_fails[OF assms, of total_mobility h_noise random_factor]
  obtain e where e: "prepare_features total_mobility h_noise random_factor pop_df = Inl e"
    "e = ValueError
       \<or> (\<exists>c\<in>set paper_input_columns. e = KeyError c \<and> \<not> has_column pop_df c)"
    by blast
  have "total_mobility = [] \<longrightarrow> e = ValueError"
    using e(1) prepare_features_empty[of h_noise random_factor pop_df] by auto
  moreover have "total_mobility \<noteq> [] \<longrightarrow>
      (\<exists>c\<in>set paper_input_columns. e = KeyError c \<and> \<not> has_column pop_df c)"
    using e prepare_features_ValueError[of total_mobility h_noise random_factor pop_df]
    by auto
  ultimately show ?thesis using e(1) by blast
qed

lemma load_and_prepare_data_fails:
  assumes "\<exists>c\<in>set load_input_columns. \<not> has_column data c"
  shows "\<exists>c\<in>set load_input_columns.
           load_and_prepare_data data = Inl (KeyError c) \<and> \<not> has_column data c"
proof (cases "has_column data ''Total_Total''")
  case False
  then have "load_and_prepare_data data = Inl (KeyError ''Total_Total'')"
    by (simp add: load_and_prepare_data_def py_then_def getitem_def has_column_def)
  with False show ?thesis by (auto simp: load_input_columns_def)
next
  case True
  then obtain population where pop: "getitem data ''Total_Total'' = Inr population"
    using getitem_present by blast
  define data1 where "data1 = setitem data ''population_density'' population"
  define data2 where "data2 = setitem data1 ''area_weight''
     (case population of [] \<Rightarrow> [] | _ \<Rightarrow> map (\<lambda>p. p / Max (set population)) population)"
  have dens: "getitem data1 ''population_density'' = Inr population"
    by (simp add: data1_def getitem_def setitem_def)
  have run: "load_and_prepare_data data = select_columns data2 load_features"
    using pop dens by (simp add: load_and_prepare_data_def py_then_def Let_def data1_def data2_def)
  have cols: "\<And>c. has_column data2 c =
                 (c = ''area_weight'' \<or> c = ''population_density'' \<or> has_column data c)"
    by (auto simp: data2_def data1_def has_column_setitem)
  show ?thesis
  proof (cases "select_columns data2 load_features")
    case (Inl e)
    from select_columns_Inl[OF Inl] obtain c where c: "c \<in> set load_features"
      "e = KeyError c" "\<not> has_column data2 c" by blast
    from c(3) cols have "\<not> has_column data c" "c \<noteq> ''area_weight''" by auto
    with c(1) have "c \<in> set load_input_columns"
      by (auto simp: load_features_def load_input_columns_def)
    with run Inl c(2) \<open>\<not> has_column data c\<close> show ?thesis by auto
  next
    case (Inr X)
    from select_columns_Inr[OF Inr] have "\<forall>c\<in>set load_features. has_column data2 c" .
    then have "\<forall>c\<in>set load_input_columns. has_column data c"
      using cols by (auto simp: load_features_def load_input_columns_def)
    with assms show ?thesis by blast
  qed
qed

text \<open>
  With every input column present and a non-empty table, \<open>prepare_features\<close> succeeds, and
  it does so without zero-filling: after \<open>create_paper_features\<close> all ten feature columns
  exist (\<open>zero_fill_unreachable\<close>).
\<close>

lemma prepare_features_succeeds:
  assumes "\<forall>c\<in>set paper_input_columns. has_column pop_df c" and "total_mobility \<noteq> []"
  shows "\<exists>r. prepare_features total_mobility h_noise random_factor pop_df = Inr r"
proof -
  have inputs: "has_column pop_df ''Total_Total''" "has_column pop_df ''elderly_ratio''"
    "has_column pop_df ''low_income_ratio''" "has_column pop_df ''hdb_ratio''"
    "has_column pop_df ''subzone_code''"
    using assms(1) by (simp_all add: paper_input_columns_def)
  obtain df1 where df1: "create_mobility_features total_mobility pop_df = Inr df1"
  proof (cases "create_mobility_features total_mobility pop_df")
    case (Inl e)
    from create_mobility_features_Inl[OF Inl] have "e = ValueError" using inputs by blast
    then show ?thesis
      using Inl assms(2) inputs(1)
      by (auto simp: create_mobility_features_def Let_def py_then_Inl getitem_Inl)
  next
    case (Inr d)
    then show ?thesis using that by blast
  qed
  note m = create_mobility_features_Inr[OF df1]
  obtain df2 where df2: "create_paper_features h_noise random_factor df1 = Inr df2"
  proof (cases "create_paper_features h_noise random_factor df1")
    case (Inl e)
    from create_paper_features_Inl[OF Inl] show ?thesis using m inputs by auto
  next
    case (Inr d)
    then show ?thesis using that by blast
  qed
  note p = create_paper_features_Inr[OF df2]
  obtain X where X: "select_columns df2 feature_columns = Inr X"
    using select_columns_present p by blast
  obtain t where t: "getitem df2 ''ohca_count'' = Inr t"
    using getitem_present p by blast
  have "has_column df2 ''subzone_code''" using p m inputs(5) by auto
  then obtain codes where codes: "getitem df2 ''subzone_code'' = Inr codes"
    using getitem_present by blast
  show ?thesis
    using prepare_features_after_paper_features[OF df1 df2] X t codes
    by (simp add: py_then_def)
qed

lemma table_without_elderly_ratio_run:
  "prepare_features [400, 420] [0, 0] [5, 4] table_without_elderly_ratio
     = Inl (KeyError ''elderly_ratio'')"
  by (simp add: prepare_features_def create_mobility_features_def create_paper_features_def
      py_then_def getitem_def setitem_def table_without_elderly_ratio_def Let_def)

text \<open>
  C8 as stated fails: on a table without the column \<open>elderly_ratio\<close> the feature
  preparation fails, but with pandas' KeyError and not with a DataError.
\<close>

theorem missing_column_counterexample:
  "\<not> has_column table_without_elderly_ratio ''elderly_ratio''
   \<and> prepare_features [400, 420] [0, 0] [5, 4] table_without_elderly_ratio
        = Inl (KeyError ''elderly_ratio'')
   \<and> prepare_features [400, 420] [0, 0] [5, 4] table_without_elderly_ratio \<noteq> Inl DataError"
  by (simp add: table_without_elderly_ratio_run)
     (simp add: has_column_def table_without_elderly_ratio_def)

text \<open>
  C8 (as amended). Whenever one of the input columns it reads is absent from the input
  table, \<open>prepare_features\<close> does not proceed and never fails with a DataError: on a table
  with at least one row (a non-empty mobility vector) it fails with a KeyError naming an
  absent input column, and on an empty table (an empty mobility vector) with the
  ValueError of \<open>max()\<close> on an empty array. \<open>load_and_prepare_data\<close> fails with a KeyError
  naming an absent input column.
\<close>

theorem missing_input_column_raises:
  "((\<exists>c\<in>set paper_input_columns. \<not> has_column pop_df c) \<longrightarrow>
      (\<exists>e. prepare_features total_mobility h_noise random_factor pop_df = Inl e
          \<and> e \<noteq> DataError
          \<and> (total_mobility = [] \<longrightarrow> e = ValueError)
          \<and> (total_mobility \<noteq> [] \<longrightarrow>
               (\<exists>c\<in>set paper_input_columns. e = KeyError c \<and> \<not> has_column pop_df c))))
   \<and> ((\<exists>c\<in>set load_input_columns. \<not> has_column data c) \<longrightarrow>
      (\<exists>c\<in>set load_input_columns.
          load_and_prepare_data data = Inl (KeyError c) \<and> \<not> has_column data c))"
proof (intro conjI impI)
  assume "\<exists>c\<in>set paper_input_columns. \<not> has_column pop_df c"
  from prepare_features_fails_sharp[OF this, of total_mobility h_noise random_factor]
  obtain e where e: "prepare_features total_mobility h_noise random_factor pop_df = Inl e"
    "total_mobility = [] \<longrightarrow> e = ValueError"
    "total_mobility \<noteq> [] \<longrightarrow>
       (\<exists>c\<in>set paper_input_columns. e = KeyError c \<and> \<not> has_column pop_df c)"
    by blast
  then have "e \<noteq> DataError" by (cases "total_mobility = []") auto
  with e show "\<exists>e. prepare_features total_mobility h_noise random_factor pop_df = Inl e
          \<and> e \<noteq> DataError
          \<and> (total_mobility = [] \<longrightarrow> e = ValueError)
          \<and> (total_mobility \<noteq> [] \<longrightarrow>
               (\<exists>c\<in>set paper_input_columns. e = KeyError c \<and> \<not> has_column pop_df c))"
    by blast
next
  assume "\<exists>c\<in>set load_input_columns. \<not> has_column data c"
  then show "\<exists>c\<in>set load_input_columns.
          load_and_prepare_data data = Inl (KeyError c) \<and> \<not> has_column data c"
    by (rule load_and_prepare_data_fails)
qed

theorem missing_input_column_raises_witness:
  "''elderly_ratio'' \<in> set paper_input_columns
   \<and> ''elderly_ratio'' \<in> set load_input_columns
   \<and> \<not> has_column table_without_elderly_ratio ''elderly_ratio''
   \<and> [400, 420] \<noteq> ([] :: real list)
   \<and> (\<exists>c\<in>set paper_input_columns.
          prepare_features [400, 420] [0, 0] [5, 4] table_without_elderly_ratio
            = Inl (KeyError c)
          \<and> KeyError c \<noteq> DataError
          \<and> \<not> has_column table_without_elderly_ratio c)
   \<and> (\<exists>c\<in>set load_input_columns.
          load_and_prepare_data table_without_elderly_ratio = Inl (KeyError c)
          \<and> \<not> has_column table_without_elderly_ratio c)"
proof -
  have h1: "''elderly_ratio'' \<in> set paper_input_columns"
    by (simp add: paper_input_columns_def)
  have h2: "''elderly_ratio'' \<in> set load_input_columns"
    by (simp add: load_input_columns_def)
  have h3: "\<not> has_column table_without_elderly_ratio ''elderly_ratio''"
    by (simp add: has_column_def table_without_elderly_ratio_def)
  have h4: "[400, 420] \<noteq> ([] :: real list)" by simp
  from missing_input_column_raises[of table_without_elderly_ratio "[400, 420]" "[0, 0]" "[5, 4]"
      table_without_elderly_ratio] h1 h2 h3 h4
  show ?thesis by blast
qed

subsection \<open>Responder assignment: counting assignments per responder and per subzone\<close>

lemma filter_eq_upt: "j < m \<Longrightarrow> filter (\<lambda>k. k = j) [0..<m] = [j]"
proof (induction m)
  case 0
  then show ?case by simp
next
  case (Suc m)
  show ?case
  proof (cases "j = m")
    case True
    then have "filter (\<lambda>k. k = j) [0..<m] = []" by (simp add: filter_empty_conv)
    with True show ?thesis by simp
  next
    case False
    with Suc show ?thesis by simp
  qed
qed

lemma filter_snd_product:
  "j < m \<Longrightarrow> filter (\<lambda>a. snd a = j) (List.product xs [0..<m]) = map (\<lambda>i. (i, j)) xs"
  by (induction xs) (simp_all add: filter_map comp_def filter_eq_upt)

lemma filter_snd_product_none:
  "\<not> j < m \<Longrightarrow> filter (\<lambda>a. snd a = j) (List.product xs [0..<m]) = []"
  by (auto simp: filter_empty_conv)

lemma filter_fst_product:
  "i < n \<Longrightarrow> filter (\<lambda>a. fst a = i) (List.product [0..<n] ys) = map (\<lambda>j. (i, j)) ys"
proof (induction n)
  case 0
  then show ?case by simp
next
  case (Suc n)
  have tail: "filter (\<lambda>a. fst a = i) (map (Pair n) ys) = (if i = n then map (Pair n) ys else [])"
    by (auto simp: filter_map comp_def filter_empty_conv)
  show ?case
  proof (cases "i = n")
    case True
    then have "filter (\<lambda>a. fst a = i) (List.product [0..<n] ys) = []"
      by (auto simp: filter_empty_conv)
    with True tail show ?thesis by (simp add: product_concat_map)
  next
    case False
    with Suc tail show ?thesis by (simp add: product_concat_map)
  qed
qed

lemma filter_fst_product_none:
  "\<not> i < n \<Longrightarrow> filter (\<lambda>a. fst a = i) (List.product [0..<n] ys) = []"
  by (auto simp: filter_empty_conv)

lemma binary_count:
  "list_all (\<lambda>v. x v = 0 \<or> x v = (1::int)) vs \<Longrightarrow>
     int (length (filter (\<lambda>v. x v = 1) vs)) = sum_list (map x vs)"
  by (induction vs) auto

lemma filter_swap: "filter P (filter Q xs) = filter Q (filter P xs)"
  by (induction xs) auto

lemma responder_count_latest:
  "filter (\<lambda>a. snd a = j)
     (filter (\<lambda>(i, j). reachable dm i j \<and> x (i, j) = 1) (List.product [0..<n] [0..<m]))
   = (if j < m then filter (\<lambda>v. x v = 1) (responder_terms dm n j) else [])"
proof -
  let ?Q = "\<lambda>(i, j). reachable dm i j \<and> x (i, j) = 1"
  let ?col = "filter (\<lambda>a. snd a = j) (List.product [0..<n] [0..<m])"
  have swap: "filter (\<lambda>a. snd a = j) (filter ?Q (List.product [0..<n] [0..<m])) = filter ?Q ?col"
    by (rule filter_swap)
  show ?thesis
  proof (cases "j < m")
    case True
    then have "?col = map (\<lambda>i. (i, j)) [0..<n]" by (rule filter_snd_product)
    then have "filter ?Q ?col = filter ?Q (map (\<lambda>i. (i, j)) [0..<n])" by (rule arg_cong)
    also have "\<dots> = filter (\<lambda>v. x v = 1) (responder_terms dm n j)"
      by (simp add: responder_terms_def filter_map comp_def)
    finally show ?thesis using swap True by (simp only: if_True)
  next
    case False
    then have "?col = []" by (rule filter_snd_product_none)
    then have "filter ?Q ?col = []" by (simp only: filter.simps)
    then show ?thesis using swap False by (simp only: if_False)
  qed
qed

lemma subzone_count_latest:
  "filter (\<lambda>a. fst a = i)
     (filter (\<lambda>(i, j). reachable dm i j \<and> x (i, j) = 1) (List.product [0..<n] [0..<m]))
   = (if i < n then filter (\<lambda>v. x v = 1) (subzone_terms dm m i) else [])"
proof -
  let ?Q = "\<lambda>(i, j). reachable dm i j \<and> x (i, j) = 1"
  let ?row = "filter (\<lambda>a. fst a = i) (List.product [0..<n] [0..<m])"
  have swap: "filter (\<lambda>a. fst a = i) (filter ?Q (List.product [0..<n] [0..<m])) = filter ?Q ?row"
    by (rule filter_swap)
  show ?thesis
  proof (cases "i < n")
    case True
    then have "?row = map (\<lambda>j. (i, j)) [0..<m]" by (rule filter_fst_product)
    then have "filter ?Q ?row = filter ?Q (map (\<lambda>j. (i, j)) [0..<m])" by (rule arg_cong)
    also have "\<dots> = filter (\<lambda>v. x v = 1) (subzone_terms dm m i)"
      by (simp add: subzone_terms_def filter_map comp_def)
    finally show ?thesis using swap True by (simp only: if_True)
  next
    case False
    then have "?row = []" by (rule filter_fst_product_none)
    then have "filter ?Q ?row = []" by (simp only: filter.simps)
    then show ?thesis using swap False by (simp only: if_False)
  qed
qed

lemma responder_count_simple:
  "filter (\<lambda>a. snd a = j) (filter (\<lambda>v. x v = 1) (valid_pairs n m dm))
   = (if j < m then filter (\<lambda>v. x v = 1) (responder_terms dm n j) else [])"
proof -
  let ?R = "\<lambda>(i, j). reachable dm i j"
  let ?col = "filter (\<lambda>a. snd a = j) (List.product [0..<n] [0..<m])"
  have "filter (\<lambda>a. snd a = j) (filter (\<lambda>v. x v = 1) (valid_pairs n m dm))
        = filter (\<lambda>v. x v = 1) (filter (\<lambda>a. snd a = j) (valid_pairs n m dm))"
    by (rule filter_swap)
  also have "filter (\<lambda>a. snd a = j) (valid_pairs n m dm) = filter ?R ?col"
    unfolding valid_pairs_def by (rule filter_swap)
  finally have swap: "filter (\<lambda>a. snd a = j) (filter (\<lambda>v. x v = 1) (valid_pairs n m dm))
        = filter (\<lambda>v. x v = 1) (filter ?R ?col)" .
  show ?thesis
  proof (cases "j < m")
    case True
    then have "?col = map (\<lambda>i. (i, j)) [0..<n]" by (rule filter_snd_product)
    then have "filter ?R ?col = filter ?R (map (\<lambda>i. (i, j)) [0..<n])" by (rule arg_cong)
    also have "\<dots> = responder_terms dm n j"
      by (simp add: responder_terms_def filter_map comp_def)
    finally show ?thesis using swap True by (simp only: if_True)
  next
    case False
    then have "?col = []" by (rule filter_snd_product_none)
    then have "filter (\<lambda>v. x v = 1) (filter ?R ?col) = []" by (simp only: filter.simps)
    then show ?thesis using swap False by (simp only: if_False)
  qed
qed

lemma terms_are_pairs:
  "j < m \<Longrightarrow> set (responder_terms dm n j) \<subseteq> set (valid_pairs n m dm)"
  "j < m \<Longrightarrow> set (responder_terms dm n j) \<subseteq> set (List.product [0..<n] [0..<m])"
  "i < n \<Longrightarrow> set (subzone_terms dm m i) \<subseteq> set (List.product [0..<n] [0..<m])"
  by (auto simp: responder_terms_def subzone_terms_def valid_pairs_def)

lemma bounded_count:
  assumes bin: "list_all (\<lambda>v. x v = 0 \<or> x v = (1::int)) vars"
    and sub: "set vs \<subseteq> set vars"
    and bound: "sum_list (map x vs) \<le> b"
  shows "int (length (filter (\<lambda>v. x v = 1) vs)) \<le> b"
proof -
  have "list_all (\<lambda>v. x v = 0 \<or> x v = 1) vs"
    using bin sub by (auto simp: list_all_iff)
  then show ?thesis using bound by (simp add: binary_count)
qed

subsection \<open>Responder assignment: bounds that follow from the constraints\<close>

lemma distance_matrix_reachable_available:
  assumes "i < length subzone_data" and "j < length volunteer_data"
    and "reachable (create_distance_matrix geodesic_meters subzone_data volunteer_data
           max_distance) i j"
  shows "availability (volunteer_data ! j) = 1"
  using assms by (auto simp: reachable_def create_distance_matrix_def Let_def split: if_splits)

lemma latest_feasibleD:
  assumes "feasible (latest_program subzone_data volunteer_data dm) x"
  shows "list_all (\<lambda>v. x v = 0 \<or> x v = 1)
           (List.product [0..<length subzone_data] [0..<length volunteer_data])"
    and "j < length volunteer_data \<Longrightarrow>
           sum_list (map x (responder_terms dm (length subzone_data) j)) \<le> 1"
    and "i < length subzone_data \<Longrightarrow>
           sum_list (map x (subzone_terms dm (length volunteer_data) i)) \<le> 3"
  using assms by (auto simp: feasible_def latest_program_def Let_def list_all_iff)

lemma simple_feasibleD:
  assumes "feasible (simple_program subzone_data volunteer_data dm) x"
  shows "list_all (\<lambda>v. x v = 0 \<or> x v = 1)
           (valid_pairs (length subzone_data) (length volunteer_data) dm)"
    and "j < length volunteer_data \<Longrightarrow> availability (volunteer_data ! j) = 1 \<Longrightarrow>
           responder_terms dm (length subzone_data) j \<noteq> [] \<Longrightarrow>
           sum_list (map x (responder_terms dm (length subzone_data) j)) \<le> 1"
  using assms by (auto simp: feasible_def simple_program_def Let_def list_all_iff)

lemma latest_result:
  "optimize_volunteer_assignment_latest solve subzone_data volunteer_data dm =
     filter (\<lambda>(i, j). reachable dm i j
                \<and> snd (solve (latest_program subzone_data volunteer_data dm)) (i, j) = 1)
       (List.product [0..<length subzone_data] [0..<length volunteer_data])"
  by (cases "solve (latest_program subzone_data volunteer_data dm)")
     (simp add: optimize_volunteer_assignment_latest_def Let_def)

lemma simple_result:
  "optimize_volunteer_assignment_simple solve subzone_data volunteer_data dm = Some asg \<Longrightarrow>
     asg = filter (\<lambda>v. snd (solve (simple_program subzone_data volunteer_data dm)) v = 1)
             (valid_pairs (length subzone_data) (length volunteer_data) dm)"
  by (cases "solve (simple_program subzone_data volunteer_data dm)")
     (simp add: optimize_volunteer_assignment_simple_def Let_def split: if_splits)

lemma latest_responder_bound:
  assumes "feasible (latest_program subzone_data volunteer_data dm)
             (snd (solve (latest_program subzone_data volunteer_data dm)))"
  shows "length (filter (\<lambda>a. snd a = j)
           (optimize_volunteer_assignment_latest solve subzone_data volunteer_data dm)) \<le> 1"
proof -
  let ?x = "snd (solve (latest_program subzone_data volunteer_data dm))"
  let ?vs = "responder_terms dm (length subzone_data) j"
  have count: "filter (\<lambda>a. snd a = j)
           (optimize_volunteer_assignment_latest solve subzone_data volunteer_data dm)
         = (if j < length volunteer_data then filter (\<lambda>v. ?x v = 1) ?vs else [])"
    by (simp only: latest_result responder_count_latest)
  show ?thesis
  proof (cases "j < length volunteer_data")
    case True
    have "int (length (filter (\<lambda>v. ?x v = 1) ?vs)) \<le> 1"
      using latest_feasibleD(1)[OF assms] terms_are_pairs(2)[OF True]
        latest_feasibleD(2)[OF assms True]
      by (rule bounded_count)
    then show ?thesis using True count by simp
  next
    case False
    then show ?thesis using count by simp
  qed
qed

lemma latest_subzone_bound:
  assumes "feasible (latest_program subzone_data volunteer_data dm)
             (snd (solve (latest_program subzone_data volunteer_data dm)))"
  shows "length (filter (\<lambda>a. fst a = i)
           (optimize_volunteer_assignment_latest solve subzone_data volunteer_data dm)) \<le> 3"
proof -
  let ?x = "snd (solve (latest_program subzone_data volunteer_data dm))"
  let ?vs = "subzone_terms dm (length volunteer_data) i"
  have count: "filter (\<lambda>a. fst a = i)
           (optimize_volunteer_assignment_latest solve subzone_data volunteer_data dm)
         = (if i < length subzone_data then filter (\<lambda>v. ?x v = 1) ?vs else [])"
    by (simp only: latest_result subzone_count_latest)
  show ?thesis
  proof (cases "i < length subzone_data")
    case True
    have "int (length (filter (\<lambda>v. ?x v = 1) ?vs)) \<le> 3"
      using latest_feasibleD(1)[OF assms] terms_are_pairs(3)[OF True]
        latest_feasibleD(3)[OF assms True]
      by (rule bounded_count)
    then show ?thesis using True count by simp
  next
    case False
    then show ?thesis using count by simp
  qed
qed

lemma simple_responder_bound:
  assumes dm: "dm = create_distance_matrix geodesic_meters subzone_data volunteer_data
                 max_distance"
    and feas: "feasible (simple_program subzone_data volunteer_data dm)
             (snd (solve (simple_program subzone_data volunteer_data dm)))"
    and res: "optimize_volunteer_assignment_simple solve subzone_data volunteer_data dm = Some asg"
  shows "length (filter (\<lambda>a. snd a = j) asg) \<le> 1"
proof -
  let ?x = "snd (solve (simple_program subzone_data volunteer_data dm))"
  let ?vs = "responder_terms dm (length subzone_data) j"
  have count: "filter (\<lambda>a. snd a = j) asg
                 = (if j < length volunteer_data then filter (\<lambda>v. ?x v = 1) ?vs else [])"
    using simple_result[OF res] by (simp only: responder_count_simple)
  show ?thesis
  proof (cases "j < length volunteer_data \<and> ?vs \<noteq> []")
    case False
    then show ?thesis using count by auto
  next
    case True
    then obtain i where i: "i < length subzone_data" "reachable dm i j"
      by (auto simp: responder_terms_def filter_empty_conv)
    then have "availability (volunteer_data ! j) = 1"
      using True distance_matrix_reachable_available dm by blast
    then have bound: "sum_list (map ?x ?vs) \<le> 1"
      using simple_feasibleD(2)[OF feas] True by blast
    have sub: "set ?vs \<subseteq> set (valid_pairs (length subzone_data) (length volunteer_data) dm)"
      using True by (intro terms_are_pairs(1)) simp
    have "int (length (filter (\<lambda>v. ?x v = 1) ?vs)) \<le> 1"
      using simple_feasibleD(1)[OF feas] sub bound by (rule bounded_count)
    then show ?thesis using count True by simp
  qed
qed

subsection \<open>Responder assignment: one subzone with four volunteers in reach\<close>

lemma reachable_case:
  "reachable dm i j = (case dm ! i ! j of None \<Rightarrow> False | Some d \<Rightarrow> True)"
  by (simp add: reachable_def split: option.splits)

lemma four_volunteers_matrix:
  "create_distance_matrix planar_meters one_subzone four_volunteers 1000
     = [[Some (111/10), Some (111/5), Some (333/10), Some (222/5)]]"
  by (simp add: create_distance_matrix_def one_subzone_def four_volunteers_def
      planar_meters_def Let_def)

lemma four_volunteers_pairs:
  "valid_pairs 1 4 [[Some (111/10), Some (111/5), Some (333/10), Some (222/5)]]
     = [(0, 0), (0, 1), (0, 2), (0, 3)]"
  by (simp add: valid_pairs_def reachable_case upt_rec)

lemma four_volunteers_simple_program:
  "simple_program one_subzone four_volunteers
     (create_distance_matrix planar_meters one_subzone four_volunteers 1000)
   = \<lparr>bp_variables = [(0, 0), (0, 1), (0, 2), (0, 3)],
      bp_objective = [((0, 0), 1/5), ((0, 1), 1/5), ((0, 2), 1/4), ((0, 3), 1/2)],
      bp_constraints = [([(0, 0)], 1), ([(0, 1)], 1), ([(0, 2)], 1), ([(0, 3)], 1)]\<rparr>"
proof -
  have len: "length one_subzone = 1" "length four_volunteers = 4"
    by (simp_all add: one_subzone_def four_volunteers_def)
  show ?thesis
    unfolding simple_program_def four_volunteers_matrix len Let_def four_volunteers_pairs
    by (simp add: one_subzone_def four_volunteers_def responder_terms_def reachable_case upt_rec)
qed

lemma four_volunteers_latest_program:
  "latest_program one_subzone four_volunteers
     (create_distance_matrix planar_meters one_subzone four_volunteers 1000)
   = \<lparr>bp_variables = [(0, 0), (0, 1), (0, 2), (0, 3)],
      bp_objective = [((0, 0), 10/121), ((0, 1), 5/116), ((0, 2), 10/343), ((0, 3), 5/227)],
      bp_constraints = [([(0, 0)], 1), ([(0, 1)], 1), ([(0, 2)], 1), ([(0, 3)], 1),
                        ([(0, 0), (0, 1), (0, 2), (0, 3)], 3)]\<rparr>"
proof -
  have len: "length one_subzone = 1" "length four_volunteers = 4"
    by (simp_all add: one_subzone_def four_volunteers_def)
  show ?thesis
    unfolding latest_program_def four_volunteers_matrix len Let_def
    by (simp add: one_subzone_def responder_terms_def subzone_terms_def reachable_case upt_rec)
qed

lemma all_ones_optimal:
  "optimal (simple_program one_subzone four_volunteers
              (create_distance_matrix planar_meters one_subzone four_volunteers 1000))
     (\<lambda>v. 1)"
  unfolding four_volunteers_simple_program optimal_def
  by (auto simp: feasible_def objective_value_def)

lemma all_ones_result:
  "optimize_volunteer_assignment_simple all_ones_solver one_subzone four_volunteers
     (create_distance_matrix planar_meters one_subzone four_volunteers 1000)
   = Some [(0, 0), (0, 1), (0, 2), (0, 3)]"
proof -
  have len: "length one_subzone = 1" "length four_volunteers = 4"
    by (simp_all add: one_subzone_def four_volunteers_def)
  show ?thesis
    unfolding optimize_volunteer_assignment_simple_def len Let_def four_volunteers_matrix
      four_volunteers_pairs
    by (simp add: all_ones_solver_def)
qed

lemma first_volunteer_feasible:
  "feasible (latest_program one_subzone four_volunteers
              (create_distance_matrix planar_meters one_subzone four_volunteers 1000))
     (\<lambda>v. if v = (0, 0) then 1 else 0)"
  "feasible (simple_program one_subzone four_volunteers
              (create_distance_matrix planar_meters one_subzone four_volunteers 1000))
     (\<lambda>v. if v = (0, 0) then 1 else 0)"
  unfolding four_volunteers_simple_program four_volunteers_latest_program
  by (simp_all add: feasible_def)

lemma first_volunteer_results:
  "optimize_volunteer_assignment_latest first_volunteer_solver one_subzone four_volunteers
     (create_distance_matrix planar_meters one_subzone four_volunteers 1000) = [(0, 0)]"
  "optimize_volunteer_assignment_simple first_volunteer_solver one_subzone four_volunteers
     (create_distance_matrix planar_meters one_subzone four_volunteers 1000) = Some [(0, 0)]"
proof -
  have len: "length one_subzone = 1" "length four_volunteers = 4"
    by (simp_all add: one_subzone_def four_volunteers_def)
  show "optimize_volunteer_assignment_latest first_volunteer_solver one_subzone four_volunteers
     (create_distance_matrix planar_meters one_subzone four_volunteers 1000) = [(0, 0)]"
    unfolding optimize_volunteer_assignment_latest_def len Let_def four_volunteers_matrix
    by (simp add: first_volunteer_solver_def reachable_case upt_rec)
  show "optimize_volunteer_assignment_simple first_volunteer_solver one_subzone four_volunteers
     (create_distance_matrix planar_meters one_subzone four_volunteers 1000) = Some [(0, 0)]"
    unfolding optimize_volunteer_assignment_simple_def len Let_def four_volunteers_matrix
      four_volunteers_pairs
    by (simp add: first_volunteer_solver_def)
qed

subsection \<open>Responder assignment: two subzones that share their volunteers\<close>

lemma shared_volunteers_matrix:
  "create_distance_matrix planar_meters three_subzones shared_volunteers 1000
     = [[Some (111/2), Some 0], [Some (111/2), Some 111], [None, None]]"
  by (simp add: create_distance_matrix_def three_subzones_def shared_volunteers_def
      planar_meters_def Let_def)

lemma shared_volunteers_pairs:
  "valid_pairs 3 2 [[Some (111/2), Some 0], [Some (111/2), Some 111], [None, None]]
     = [(0, 0), (0, 1), (1, 0), (1, 1)]"
  by (simp add: valid_pairs_def reachable_case upt_rec)

lemma shared_volunteers_latest_program:
  "latest_program three_subzones shared_volunteers
     (create_distance_matrix planar_meters three_subzones shared_volunteers 1000)
   = \<lparr>bp_variables = [(0, 0), (0, 1), (1, 0), (1, 1), (2, 0), (2, 1)],
      bp_objective = [((0, 0), 1/113), ((0, 1), 1/2), ((1, 0), 1/113), ((1, 1), 1/224)],
      bp_constraints = [([(0, 0), (1, 0)], 1), ([(0, 1), (1, 1)], 1),
                        ([(0, 0), (0, 1)], 3), ([(1, 0), (1, 1)], 3), ([], 3)]\<rparr>"
proof -
  have len: "length three_subzones = 3" "length shared_volunteers = 2"
    by (simp_all add: three_subzones_def shared_volunteers_def)
  show ?thesis
    unfolding latest_program_def shared_volunteers_matrix len Let_def
    by (simp add: three_subzones_def responder_terms_def subzone_terms_def reachable_case
        upt_rec)
qed

lemma shared_volunteers_simple_program:
  "simple_program three_subzones shared_volunteers
     (create_distance_matrix planar_meters three_subzones shared_volunteers 1000)
   = \<lparr>bp_variables = [(0, 0), (0, 1), (1, 0), (1, 1)],
      bp_objective = [((0, 0), 1/10), ((0, 1), 1/8), ((1, 0), 1/10), ((1, 1), 1/8)],
      bp_constraints = [([(0, 0), (1, 0)], 1), ([(0, 1), (1, 1)], 1)]\<rparr>"
proof -
  have len: "length three_subzones = 3" "length shared_volunteers = 2"
    by (simp_all add: three_subzones_def shared_volunteers_def)
  show ?thesis
    unfolding simple_program_def shared_volunteers_matrix len Let_def shared_volunteers_pairs
    by (simp add: three_subzones_def shared_volunteers_def responder_terms_def reachable_case
        upt_rec)
qed

lemma crossed_feasible:
  "feasible (latest_program three_subzones shared_volunteers
              (create_distance_matrix planar_meters three_subzones shared_volunteers 1000))
     (\<lambda>v. if v = (0, 1) \<or> v = (1, 0) then 1 else 0)"
  "feasible (simple_program three_subzones shared_volunteers
              (create_distance_matrix planar_meters three_subzones shared_volunteers 1000))
     (\<lambda>v. if v = (0, 1) \<or> v = (1, 0) then 1 else 0)"
  unfolding shared_volunteers_simple_program shared_volunteers_latest_program
  by (simp_all add: feasible_def)

lemma crossed_results:
  "optimize_volunteer_assignment_latest crossed_solver three_subzones shared_volunteers
     (create_distance_matrix planar_meters three_subzones shared_volunteers 1000)
   = [(0, 1), (1, 0)]"
  "optimize_volunteer_assignment_simple crossed_solver three_subzones shared_volunteers
     (create_distance_matrix planar_meters three_subzones shared_volunteers 1000)
   = Some [(0, 1), (1, 0)]"
proof -
  have len: "length three_subzones = 3" "length shared_volunteers = 2"
    by (simp_all add: three_subzones_def shared_volunteers_def)
  show "optimize_volunteer_assignment_latest crossed_solver three_subzones shared_volunteers
     (create_distance_matrix planar_meters three_subzones shared_volunteers 1000)
   = [(0, 1), (1, 0)]"
    unfolding optimize_volunteer_assignment_latest_def len Let_def shared_volunteers_matrix
    by (simp add: crossed_solver_def reachable_case upt_rec)
  show "optimize_volunteer_assignment_simple crossed_solver three_subzones shared_volunteers
     (create_distance_matrix planar_meters three_subzones shared_volunteers 1000)
   = Some [(0, 1), (1, 0)]"
    unfolding optimize_volunteer_assignment_simple_def len Let_def shared_volunteers_matrix
      shared_volunteers_pairs
    by (simp add: crossed_solver_def)
qed

text \<open>
  On this input the bound of one subzone per responder rests on the solver's contract:
  values that violate the first volunteer's constraint are extracted as they are, and the
  first volunteer then appears at two subzones.
\<close>

lemma double_booking_is_extracted:
  "\<not> feasible (latest_program three_subzones shared_volunteers
              (create_distance_matrix planar_meters three_subzones shared_volunteers 1000))
        (snd (double_booking_solver (latest_program three_subzones shared_volunteers
              (create_distance_matrix planar_meters three_subzones shared_volunteers 1000))))
   \<and> \<not> feasible (simple_program three_subzones shared_volunteers
              (create_distance_matrix planar_meters three_subzones shared_volunteers 1000))
        (snd (double_booking_solver (simple_program three_subzones shared_volunteers
              (create_distance_matrix planar_meters three_subzones shared_volunteers 1000))))
   \<and> optimize_volunteer_assignment_latest double_booking_solver three_subzones
        shared_volunteers
        (create_distance_matrix planar_meters three_subzones shared_volunteers 1000)
       = [(0, 0), (1, 0)]
   \<and> optimize_volunteer_assignment_simple double_booking_solver three_subzones
        shared_volunteers
        (create_distance_matrix planar_meters three_subzones shared_volunteers 1000)
       = Some [(0, 0), (1, 0)]
   \<and> length (filter (\<lambda>a. snd a = 0) [(0, 0), (1, 0) :: var]) = 2"
proof -
  have len: "length three_subzones = 3" "length shared_volunteers = 2"
    by (simp_all add: three_subzones_def shared_volunteers_def)
  have x: "\<And>p. snd (double_booking_solver p) = (\<lambda>v. if v = (0, 0) \<or> v = (1, 0) then 1 else 0)"
    by (simp add: double_booking_solver_def)
  have f1: "\<not> feasible (latest_program three_subzones shared_volunteers
              (create_distance_matrix planar_meters three_subzones shared_volunteers 1000))
        (snd (double_booking_solver (latest_program three_subzones shared_volunteers
              (create_distance_matrix planar_meters three_subzones shared_volunteers 1000))))"
    unfolding x shared_volunteers_latest_program by (simp add: feasible_def)
  have f2: "\<not> feasible (simple_program three_subzones shared_volunteers
              (create_distance_matrix planar_meters three_subzones shared_volunteers 1000))
        (snd (double_booking_solver (simple_program three_subzones shared_volunteers
              (create_distance_matrix planar_meters three_subzones shared_volunteers 1000))))"
    unfolding x shared_volunteers_simple_program by (simp add: feasible_def)
  have r1: "optimize_volunteer_assignment_latest double_booking_solver three_subzones
        shared_volunteers
        (create_distance_matrix planar_meters three_subzones shared_volunteers 1000)
       = [(0, 0), (1, 0)]"
    unfolding optimize_volunteer_assignment_latest_def len Let_def shared_volunteers_matrix
    by (simp add: double_booking_solver_def reachable_case upt_rec)
  have r2: "optimize_volunteer_assignment_simple double_booking_solver three_subzones
        shared_volunteers
        (create_distance_matrix planar_meters three_subzones shared_volunteers 1000)
       = Some [(0, 0), (1, 0)]"
    unfolding optimize_volunteer_assignment_simple_def len Let_def shared_volunteers_matrix
      shared_volunteers_pairs
    by (simp add: double_booking_solver_def)
  show ?thesis using f1 f2 r1 r2 by simp
qed

subsection \<open>Responder assignment: capacity per subzone and subzones per responder\<close>

text \<open>
  On the input with one subzone and four volunteers the program of the simple variant has
  a single optimum: all four weights
  are positive and no constraint links two volunteers, so every optimal solution assigns
  all four volunteers to the one subzone.
\<close>

lemma all_ones_only_optimum:
  assumes "optimal (simple_program one_subzone four_volunteers
              (create_distance_matrix planar_meters one_subzone four_volunteers 1000)) y"
  shows "y (0, 0) = 1 \<and> y (0, 1) = 1 \<and> y (0, 2) = 1 \<and> y (0, 3) = 1"
proof -
  let ?p = "simple_program one_subzone four_volunteers
              (create_distance_matrix planar_meters one_subzone four_volunteers 1000)"
  have feas: "feasible ?p y" and best: "objective_value ?p (\<lambda>v. 1) \<le> objective_value ?p y"
    using assms all_ones_optimal by (auto simp: optimal_def)
  have bin: "y (0, 0) = 0 \<or> y (0, 0) = 1" "y (0, 1) = 0 \<or> y (0, 1) = 1"
    "y (0, 2) = 0 \<or> y (0, 2) = 1" "y (0, 3) = 0 \<or> y (0, 3) = 1"
    using feas unfolding four_volunteers_simple_program by (simp_all add: feasible_def)
  have "1/5 + 1/5 + 1/4 + 1/2
          \<le> 1/5 * real_of_int (y (0, 0)) + 1/5 * real_of_int (y (0, 1))
            + 1/4 * real_of_int (y (0, 2)) + 1/2 * real_of_int (y (0, 3))"
    using best unfolding four_volunteers_simple_program by (simp add: objective_value_def)
  then show ?thesis using bin by auto
qed

text \<open>
  C4 as stated fails for the simple variant: its program has no per-subzone constraint, so
  with four volunteers in reach of one subzone the optimal solution, which the solver
  reports with status \<open>Optimal\<close>, assigns all four to that subzone.
\<close>

theorem simple_capacity_counterexample:
  "optimal (simple_program one_subzone four_volunteers
              (create_distance_matrix planar_meters one_subzone four_volunteers 1000))
     (snd (all_ones_solver (simple_program one_subzone four_volunteers
              (create_distance_matrix planar_meters one_subzone four_volunteers 1000))))
   \<and> optimize_volunteer_assignment_simple all_ones_solver one_subzone four_volunteers
       (create_distance_matrix planar_meters one_subzone four_volunteers 1000)
       = Some [(0, 0), (0, 1), (0, 2), (0, 3)]
   \<and> length (filter (\<lambda>a. fst a = 0) [(0, 0), (0, 1), (0, 2), (0, 3) :: var]) = 4"
proof -
  have "snd (all_ones_solver (simple_program one_subzone four_volunteers
              (create_distance_matrix planar_meters one_subzone four_volunteers 1000)))
          = (\<lambda>v. 1)"
    by (simp add: all_ones_solver_def)
  then show ?thesis using all_ones_optimal all_ones_result by simp
qed

text \<open>
  C4 (as amended). In every solution produced by the variant of
  \<open>volunteer_analysis_latest\<close>, for every input set of subzones, responders and
  reachability radius, each subzone \<open>i\<close> receives at most 3 responders, provided the values
  returned by the solver satisfy the program it was given. The variant of
  \<open>optimized_volunteer_assignment_simple\<close> imposes no per-subzone capacity.
\<close>

theorem latest_subzone_capacity:
  assumes "distance_matrix =
             create_distance_matrix geodesic_meters subzone_data volunteer_data max_distance"
    and "feasible (latest_program subzone_data volunteer_data distance_matrix)
           (snd (solve (latest_program subzone_data volunteer_data distance_matrix)))"
  shows "length (filter (\<lambda>a. fst a = i)
           (optimize_volunteer_assignment_latest solve subzone_data volunteer_data
              distance_matrix)) \<le> 3"
  using assms(2) by (rule latest_subzone_bound)

theorem latest_subzone_capacity_witness:
  "feasible (latest_program one_subzone four_volunteers
       (create_distance_matrix planar_meters one_subzone four_volunteers 1000))
     (snd (first_volunteer_solver (latest_program one_subzone four_volunteers
       (create_distance_matrix planar_meters one_subzone four_volunteers 1000))))
   \<and> optimize_volunteer_assignment_latest first_volunteer_solver one_subzone four_volunteers
       (create_distance_matrix planar_meters one_subzone four_volunteers 1000) = [(0, 0)]
   \<and> length (filter (\<lambda>a. fst a = 0)
        (optimize_volunteer_assignment_latest first_volunteer_solver one_subzone
           four_volunteers
           (create_distance_matrix planar_meters one_subzone four_volunteers 1000))) \<le> 3"
proof -
  have x: "\<And>p. snd (first_volunteer_solver p) = (\<lambda>v. if v = (0, 0) then 1 else 0)"
    by (simp add: first_volunteer_solver_def)
  have h: "feasible (latest_program one_subzone four_volunteers
       (create_distance_matrix planar_meters one_subzone four_volunteers 1000))
     (snd (first_volunteer_solver (latest_program one_subzone four_volunteers
       (create_distance_matrix planar_meters one_subzone four_volunteers 1000))))"
    unfolding x by (rule first_volunteer_feasible(1))
  from latest_subzone_capacity[where geodesic_meters = planar_meters
      and subzone_data = one_subzone and volunteer_data = four_volunteers
      and max_distance = 1000 and solve = first_volunteer_solver and i = 0, OF refl h]
    h first_volunteer_results(1)
  show ?thesis by blast
qed

text \<open>
  C7. In every solution produced by either variant, for every input set of subzones,
  responders and reachability radius (the distance matrix being the one built by
  \<open>create_distance_matrix\<close>), each responder \<open>j\<close> is assigned to at most one subzone,
  provided the values returned by the solver satisfy the program it was given.
\<close>

theorem each_responder_at_most_one_subzone:
  assumes "distance_matrix =
             create_distance_matrix geodesic_meters subzone_data volunteer_data max_distance"
  shows "(feasible (latest_program subzone_data volunteer_data distance_matrix)
            (snd (solve (latest_program subzone_data volunteer_data distance_matrix)))
          \<longrightarrow> length (filter (\<lambda>a. snd a = j)
                 (optimize_volunteer_assignment_latest solve subzone_data volunteer_data
                    distance_matrix)) \<le> 1)
       \<and> (feasible (simple_program subzone_data volunteer_data distance_matrix)
            (snd (solve (simple_program subzone_data volunteer_data distance_matrix)))
          \<longrightarrow> (\<forall>asg. optimize_volunteer_assignment_simple solve subzone_data volunteer_data
                        distance_matrix = Some asg
                  \<longrightarrow> length (filter (\<lambda>a. snd a = j) asg) \<le> 1))"
  using latest_responder_bound[of subzone_data volunteer_data distance_matrix solve j]
    simple_responder_bound[OF assms, of solve _ j]
  by blast

theorem each_responder_at_most_one_subzone_witness:
  "feasible (latest_program three_subzones shared_volunteers
       (create_distance_matrix planar_meters three_subzones shared_volunteers 1000))
     (snd (crossed_solver (latest_program three_subzones shared_volunteers
       (create_distance_matrix planar_meters three_subzones shared_volunteers 1000))))
   \<and> feasible (simple_program three_subzones shared_volunteers
       (create_distance_matrix planar_meters three_subzones shared_volunteers 1000))
     (snd (crossed_solver (simple_program three_subzones shared_volunteers
       (create_distance_matrix planar_meters three_subzones shared_volunteers 1000))))
   \<and> reachable (create_distance_matrix planar_meters three_subzones shared_volunteers 1000) 0 0
   \<and> reachable (create_distance_matrix planar_meters three_subzones shared_volunteers 1000) 1 0
   \<and> optimize_volunteer_assignment_simple crossed_solver three_subzones shared_volunteers
       (create_distance_matrix planar_meters three_subzones shared_volunteers 1000)
       = Some [(0, 1), (1, 0)]
   \<and> length (filter (\<lambda>a. snd a = 0)
        (optimize_volunteer_assignment_latest crossed_solver three_subzones shared_volunteers
           (create_distance_matrix planar_meters three_subzones shared_volunteers 1000))) \<le> 1
   \<and> length (filter (\<lambda>a. snd a = 0) [(0, 1), (1, 0) :: var]) \<le> 1"
proof -
  have x: "\<And>p. snd (crossed_solver p) = (\<lambda>v. if v = (0, 1) \<or> v = (1, 0) then 1 else 0)"
    by (simp add: crossed_solver_def)
  have h1: "feasible (latest_program three_subzones shared_volunteers
       (create_distance_matrix planar_meters three_subzones shared_volunteers 1000))
     (snd (crossed_solver (latest_program three_subzones shared_volunteers
       (create_distance_matrix planar_meters three_subzones shared_volunteers 1000))))"
    unfolding x by (rule crossed_feasible(1))
  have h2: "feasible (simple_program three_subzones shared_volunteers
       (create_distance_matrix planar_meters three_subzones shared_volunteers 1000))
     (snd (crossed_solver (simple_program three_subzones shared_volunteers
       (create_distance_matrix planar_meters three_subzones shared_volunteers 1000))))"
    unfolding x by (rule crossed_feasible(2))
  have r: "reachable (create_distance_matrix planar_meters three_subzones shared_volunteers 1000)
             0 0"
    "reachable (create_distance_matrix planar_meters three_subzones shared_volunteers 1000) 1 0"
    unfolding shared_volunteers_matrix by (simp_all add: reachable_case)
  from each_responder_at_most_one_subzone[where geodesic_meters = planar_meters
      and subzone_data = three_subzones and volunteer_data = shared_volunteers
      and max_distance = 1000 and solve = crossed_solver and j = 0, OF refl]
    h1 h2 r crossed_results(2)
  show ?thesis by auto
qed

end
